theory Spec2Isabelle
  imports Main "HOL-Library.Sublist"
begin

section \<open>Python values, dictionaries and exceptions\<close>

text \<open>
  The lifecycle manager of the BrainDriveSettings plugin (\<^verbatim>\<open>lifecycle_manager.py\<close>) works on
  Python dictionaries, on rows of a relational store reached through an asynchronous
  session, and on the plugin's files. Python values are one datatype; a dictionary is an
  association list in insertion order. Dictionaries written as literals in the source have
  string keys (\<open>pydict\<close>); a dictionary value inside a Python value may have any key.
\<close>

datatype pyval =
    PNone
  | PBool bool
  | PInt int
  | PStr string
  | PList "pyval list"
  | PDict "(pyval \<times> pyval) list"

type_synonym pydict = "(string \<times> pyval) list"

text \<open>Python truthiness (\<^verbatim>\<open>if x:\<close>, \<^verbatim>\<open>not x\<close>).\<close>

fun truthy :: "pyval \<Rightarrow> bool" where
  "truthy PNone = False"
| "truthy (PBool b) = b"
| "truthy (PInt i) = (i \<noteq> 0)"
| "truthy (PStr s) = (s \<noteq> [])"
| "truthy (PList xs) = (xs \<noteq> [])"
| "truthy (PDict d) = (d \<noteq> [])"

datatype exn_class =
    DatabaseError
  | MultipleResultsFound
  | JSONDecodeError
  | TypeError
  | AttributeError
  | KeyError
  | ValueError
  | UnicodeDecodeError
  | RecursionError
  | FileNotFoundError
  | FileExistsError
  | NotADirectoryError
  | IsADirectoryError
  | PermissionError

text \<open>An exception is its class and the text that \<^verbatim>\<open>str(e)\<close> gives.\<close>

datatype exn = Exn exn_class string

fun exn_class_of :: "exn \<Rightarrow> exn_class" where
  "exn_class_of (Exn c m) = c"

fun str_exn :: "exn \<Rightarrow> string" where
  "str_exn (Exn c m) = m"

text \<open>
  The name of a value's type, and \<^verbatim>\<open>repr\<close> of a string that holds neither a quote nor a
  backslash, as they appear in the texts of Python's exceptions.
\<close>

fun type_name :: "pyval \<Rightarrow> string" where
  "type_name PNone = ''NoneType''"
| "type_name (PBool b) = ''bool''"
| "type_name (PInt i) = ''int''"
| "type_name (PStr s) = ''str''"
| "type_name (PList xs) = ''list''"
| "type_name (PDict d) = ''dict''"

definition quoted :: "string \<Rightarrow> string" where
  "quoted s = [CHR 0x27] @ s @ [CHR 0x27]"

text \<open>
  \<^verbatim>\<open>d.get(k, default)\<close> and \<^verbatim>\<open>d[k]\<close> on a dictionary with string keys. The source
  subscripts only keys that every producer of the dictionary sets, so \<open>dsub\<close> has no
  KeyError branch; an absent key reads as None.
\<close>

definition dget :: "pydict \<Rightarrow> string \<Rightarrow> pyval \<Rightarrow> pyval" where
  "dget d k dflt = (case map_of d k of Some v \<Rightarrow> v | None \<Rightarrow> dflt)"

definition dsub :: "pydict \<Rightarrow> string \<Rightarrow> pyval" where
  "dsub d k = dget d k PNone"

text \<open>\<^verbatim>\<open>d[k] = v\<close>: an existing key keeps its position, a new key goes last.\<close>

fun assign :: "('k \<times> 'v) list \<Rightarrow> 'k \<Rightarrow> 'v \<Rightarrow> ('k \<times> 'v) list" where
  "assign [] k v = [(k, v)]"
| "assign ((k', v') # d) k v = (if k' = k then (k, v) # d else (k', v') # assign d k v)"

text \<open>\<^verbatim>\<open>d.update(other)\<close>.\<close>

definition dict_update :: "('k \<times> 'v) list \<Rightarrow> ('k \<times> 'v) list \<Rightarrow> ('k \<times> 'v) list" where
  "dict_update d other = foldl (\<lambda>acc (k, v). assign acc k v) d other"

text \<open>A literal with string keys as a Python value.\<close>

definition sdict :: "pydict \<Rightarrow> pyval" where
  "sdict d = PDict (map (\<lambda>(k, v). (PStr k, v)) d)"

text \<open>
  The operations the source applies to values whose type it does not control:
  \<^verbatim>\<open>k in x\<close>, \<^verbatim>\<open>x[k]\<close>, \<^verbatim>\<open>x.get(k, default)\<close> and \<^verbatim>\<open>x.items()\<close>, with the
  exception Python raises on a value of the wrong type.
\<close>

definition no_attribute :: "pyval \<Rightarrow> string \<Rightarrow> exn" where
  "no_attribute v a =
     Exn AttributeError (quoted (type_name v) @ '' object has no attribute '' @ quoted a)"

fun py_in :: "string \<Rightarrow> pyval \<Rightarrow> exn + bool" where
  "py_in k (PDict d) = Inr (PStr k \<in> set (map fst d))"
| "py_in k (PList xs) = Inr (PStr k \<in> set xs)"
| "py_in k (PStr s) = Inr (sublist k s)"
| "py_in k v =
     Inl (Exn TypeError (''argument of type '' @ quoted (type_name v) @ '' is not iterable''))"

fun py_subscript :: "pyval \<Rightarrow> string \<Rightarrow> exn + pyval" where
  "py_subscript (PDict d) k =
     (case map_of d (PStr k) of Some v \<Rightarrow> Inr v | None \<Rightarrow> Inl (Exn KeyError (quoted k)))"
| "py_subscript (PList xs) k =
     Inl (Exn TypeError ''list indices must be integers or slices, not str'')"
| "py_subscript (PStr s) k =
     Inl (Exn TypeError (''string indices must be integers, not '' @ quoted ''str''))"
| "py_subscript v k =
     Inl (Exn TypeError (quoted (type_name v) @ '' object is not subscriptable''))"

fun py_get :: "pyval \<Rightarrow> string \<Rightarrow> pyval \<Rightarrow> exn + pyval" where
  "py_get (PDict d) k dflt = Inr (case map_of d (PStr k) of Some v \<Rightarrow> v | None \<Rightarrow> dflt)"
| "py_get v k dflt = Inl (no_attribute v ''get'')"

fun py_items :: "pyval \<Rightarrow> exn + (pyval \<times> pyval) list" where
  "py_items (PDict d) = Inr d"
| "py_items v = Inl (no_attribute v ''items'')"

text \<open>
  Interpolation of a value into an f-string. The values interpolated are user ids, slugs
  and cells read from the store, which are scalars; a container does not occur there and
  is rendered by a placeholder.
\<close>

definition digit :: "nat \<Rightarrow> char" where
  "digit n = ''0123456789'' ! (n mod 10)"

function show_nat :: "nat \<Rightarrow> string" where
  "show_nat n = (if n < 10 then [digit n] else show_nat (n div 10) @ [digit n])"
  by pat_completeness auto
termination
  by (relation "measure id") auto

declare show_nat.simps [simp del]

fun fstr :: "pyval \<Rightarrow> string" where
  "fstr (PStr s) = s"
| "fstr PNone = ''None''"
| "fstr (PBool b) = (if b then ''True'' else ''False'')"
| "fstr (PInt i) = (if i < 0 then CHR ''-'' # show_nat (nat (- i)) else show_nat (nat i))"
| "fstr (PList xs) = ''[...]''"
| "fstr (PDict d) = ''{...}''"

section \<open>The environment: JSON codec, clock, identifiers\<close>

text \<open>
  What the manager takes from its surroundings and does not compute: Python's
  \<^verbatim>\<open>json.loads\<close> on a text, with the exception it raises (a JSONDecodeError on a text
  that is not JSON, and whatever else the parser raises, a RecursionError for one), the
  decoding of the bytes of a file that is read as text (a UnicodeDecodeError when it
  fails), \<^verbatim>\<open>json.dumps\<close>, the two renderings of the current time, the identifiers that
  successive calls of \<^verbatim>\<open>uuid4()\<close> return, and the directory that holds
  \<^verbatim>\<open>lifecycle_manager.py\<close> (\<^verbatim>\<open>Path(__file__).parent\<close>).

  The module starts with \<^verbatim>\<open>import datetime\<close>. When the host's \<^verbatim>\<open>BaseLifecycleManager\<close>
  cannot be imported, the branch that defines the minimal base class also executes
  \<^verbatim>\<open>from datetime import datetime\<close> at module level, and from then on the global name
  \<^verbatim>\<open>datetime\<close> is the class, not the module: \<open>datetime_is_class\<close> says which of the two
  holds. The manager's methods write \<^verbatim>\<open>datetime.datetime.now()\<close>, which is an
  AttributeError when the name is the class.

  Every theorem below holds for each such environment.
\<close>

type_synonym path = "string list"

record env =
  datetime_is_class :: bool
  loads :: "string \<Rightarrow> exn + pyval"
  decode :: "string \<Rightarrow> exn + string"
  dumps :: "pyval \<Rightarrow> string"
  now_strftime :: string
  now_isoformat :: string
  uuid4 :: "nat \<Rightarrow> string"
  file_parent :: path

text \<open>
  \<^verbatim>\<open>datetime.datetime.now().strftime("%Y-%m-%d %H:%M:%S")\<close> and
  \<^verbatim>\<open>datetime.datetime.now().isoformat()\<close>.
\<close>

definition datetime_attribute_error :: exn where
  "datetime_attribute_error =
     Exn AttributeError
       (''type object '' @ quoted ''datetime.datetime'' @ '' has no attribute '' @ quoted ''datetime'')"

definition now_formatted :: "env \<Rightarrow> exn + string" where
  "now_formatted env =
     (if datetime_is_class env then Inl datetime_attribute_error else Inr (now_strftime env))"

definition now_iso :: "env \<Rightarrow> exn + string" where
  "now_iso env =
     (if datetime_is_class env then Inl datetime_attribute_error else Inr (now_isoformat env))"

text \<open>\<^verbatim>\<open>json.loads(x)\<close> on a value read from the store.\<close>

definition json_loads :: "env \<Rightarrow> pyval \<Rightarrow> exn + pyval" where
  "json_loads env x =
     (case x of
        PStr s \<Rightarrow> loads env s
      | _ \<Rightarrow>
          Inl (Exn TypeError
                 (''the JSON object must be str, bytes or bytearray, not '' @ type_name x)))"

definition json_dumps :: "env \<Rightarrow> pyval \<Rightarrow> pyval" where
  "json_dumps env v = PStr (dumps env v)"

section \<open>The relational store and its session\<close>

text \<open>
  A row is the dictionary of its columns; a table is the list of its rows in insertion
  order. The session holds the committed store, the store as the open transaction sees
  it, and a schedule of database errors: each \<^verbatim>\<open>db.execute\<close> takes the head of the
  schedule and raises when it is \<open>Some msg\<close>; an empty schedule raises nothing. Constraint
  violations, lost connections and the like are errors of that schedule.
  \<^verbatim>\<open>commit\<close> and \<^verbatim>\<open>rollback\<close> themselves do not fail here. The files of the machine and
  the number of identifiers drawn so far complete the state.
\<close>

type_synonym row = pydict

record database =
  plugin :: "row list"
  module :: "row list"
  settings_definitions :: "row list"
  settings_instances :: "row list"

datatype table = TPlugin | TModule | TSettingsDefinitions | TSettingsInstances

fun rows :: "table \<Rightarrow> database \<Rightarrow> row list" where
  "rows TPlugin d = plugin d"
| "rows TModule d = module d"
| "rows TSettingsDefinitions d = settings_definitions d"
| "rows TSettingsInstances d = settings_instances d"

fun put_rows :: "table \<Rightarrow> row list \<Rightarrow> database \<Rightarrow> database" where
  "put_rows TPlugin rs d = d\<lparr>plugin := rs\<rparr>"
| "put_rows TModule rs d = d\<lparr>module := rs\<rparr>"
| "put_rows TSettingsDefinitions rs d = d\<lparr>settings_definitions := rs\<rparr>"
| "put_rows TSettingsInstances rs d = d\<lparr>settings_instances := rs\<rparr>"

datatype node = File (readable: bool) (content: string) | Dir (st_size_dir: nat)

type_synonym filesystem = "(path \<times> node) list"

record world =
  committed :: database
  working :: database
  faults :: "string option list"
  uuid_calls :: nat
  files :: filesystem

definition col :: "row \<Rightarrow> string \<Rightarrow> pyval" where
  "col r c = dget r c PNone"

definition next_fault :: "world \<Rightarrow> string option \<times> world" where
  "next_fault w = (case faults w of [] \<Rightarrow> (None, w) | f # fs \<Rightarrow> (f, w\<lparr>faults := fs\<rparr>))"

text \<open>\<^verbatim>\<open>SELECT cols FROM t WHERE cond\<close>: the result rows, as tuples of the columns.\<close>

definition execute_select ::
  "table \<Rightarrow> string list \<Rightarrow> (row \<Rightarrow> bool) \<Rightarrow> world \<Rightarrow> (exn + pyval list list) \<times> world" where
  "execute_select t cols cond w =
     (case next_fault w of
        (Some msg, w') \<Rightarrow> (Inl (Exn DatabaseError msg), w')
      | (None, w') \<Rightarrow>
          (Inr (map (\<lambda>r. map (col r) cols) (filter cond (rows t (working w')))), w'))"

text \<open>\<^verbatim>\<open>INSERT INTO t (...) VALUES (...)\<close> with the parameter dictionary as the row.\<close>

definition execute_insert :: "table \<Rightarrow> row \<Rightarrow> world \<Rightarrow> (exn + unit) \<times> world" where
  "execute_insert t r w =
     (case next_fault w of
        (Some msg, w') \<Rightarrow> (Inl (Exn DatabaseError msg), w')
      | (None, w') \<Rightarrow>
          (Inr (), w'\<lparr>working := put_rows t (rows t (working w') @ [r]) (working w')\<rparr>))"

text \<open>\<^verbatim>\<open>DELETE FROM t WHERE cond\<close>; the result is \<^verbatim>\<open>rowcount\<close>.\<close>

definition execute_delete :: "table \<Rightarrow> (row \<Rightarrow> bool) \<Rightarrow> world \<Rightarrow> (exn + nat) \<times> world" where
  "execute_delete t cond w =
     (case next_fault w of
        (Some msg, w') \<Rightarrow> (Inl (Exn DatabaseError msg), w')
      | (None, w') \<Rightarrow>
          (Inr (length (filter cond (rows t (working w')))),
           w'\<lparr>working := put_rows t (filter (\<lambda>r. \<not> cond r) (rows t (working w'))) (working w')\<rparr>))"

text \<open>\<^verbatim>\<open>UPDATE t SET ... WHERE cond\<close>.\<close>

definition execute_update :: "table \<Rightarrow> pydict \<Rightarrow> (row \<Rightarrow> bool) \<Rightarrow> world \<Rightarrow> (exn + unit) \<times> world" where
  "execute_update t sets cond w =
     (case next_fault w of
        (Some msg, w') \<Rightarrow> (Inl (Exn DatabaseError msg), w')
      | (None, w') \<Rightarrow>
          (Inr (),
           w'\<lparr>working :=
                 put_rows t (map (\<lambda>r. if cond r then dict_update r sets else r) (rows t (working w')))
                   (working w')\<rparr>))"

definition commit :: "world \<Rightarrow> world" where
  "commit w = w\<lparr>committed := working w\<rparr>"

definition rollback :: "world \<Rightarrow> world" where
  "rollback w = w\<lparr>working := committed w\<rparr>"

text \<open>\<^verbatim>\<open>result.fetchone()\<close> and \<^verbatim>\<open>result.scalar_one_or_none()\<close>.\<close>

fun fetchone :: "pyval list list \<Rightarrow> pyval list option" where
  "fetchone [] = None"
| "fetchone (r # rs) = Some r"

fun scalar_one_or_none :: "pyval list list \<Rightarrow> exn + pyval" where
  "scalar_one_or_none [] = Inr PNone"
| "scalar_one_or_none [r] = Inr (r ! 0)"
| "scalar_one_or_none (r # r' # rs) =
     Inl (Exn MultipleResultsFound ''Multiple rows were found when one or none was required'')"

text \<open>
  SQL \<^verbatim>\<open>LIKE\<close>: \<^verbatim>\<open>%\<close> stands for any run of characters and \<^verbatim>\<open>_\<close> for any one
  character; a value that is not text does not match.
\<close>

fun like_match :: "string \<Rightarrow> string \<Rightarrow> bool" where
  "like_match [] [] = True"
| "like_match [] (c # cs) = False"
| "like_match (p # ps) [] = (p = CHR ''%'' \<and> like_match ps [])"
| "like_match (p # ps) (c # cs) =
     (if p = CHR ''%'' then like_match ps (c # cs) \<or> like_match (p # ps) cs
      else if p = CHR ''_'' then like_match ps cs
      else p = c \<and> like_match ps cs)"

definition sql_like :: "pyval \<Rightarrow> string \<Rightarrow> bool" where
  "sql_like v pat = (case v of PStr s \<Rightarrow> like_match pat s | _ \<Rightarrow> False)"

section \<open>The static descriptors\<close>

text \<open>
  \<^verbatim>\<open>self.plugin_data\<close>, \<^verbatim>\<open>self.module_data\<close> and \<^verbatim>\<open>self.PLUGIN_SETTINGS_DEFINITIONS\<close>.
  The elements of the two lists, and of the list of settings instances, have names of
  their own here.
\<close>

definition plugin_data :: pydict where
  \<open>plugin_data =
    [(''name'', PStr ''BrainDrive Settings''),
     (''description'', PStr ''Basic BrainDrive Settings Plugin''),
     (''version'', PStr ''1.0.3''),
     (''type'', PStr ''frontend''),
     (''icon'', PStr ''Dashboard''),
     (''category'', PStr ''Utilities''),
     (''official'', PBool True),
     (''author'', PStr ''BrainDrive Team''),
     (''compatibility'', PStr ''1.0.0''),
     (''scope'', PStr ''BrainDriveSettings''),
     (''bundle_method'', PStr ''webpack''),
     (''bundle_location'', PStr ''dist/remoteEntry.js''),
     (''is_local'', PBool False),
     (''long_description'', PStr ''Comprehensive settings management for BrainDrive including theme settings, general configuration, and Ollama server management.''),
     (''plugin_slug'', PStr ''BrainDriveSettings''),
     (''source_type'', PStr ''remote''),
     (''source_url'', PStr ''https://github.com/DJJones66/BrainDriveSettings''),
     (''update_check_url'', PStr ''https://api.github.com/repos/DJJones66/BrainDriveSettings/releases/latest''),
     (''last_update_check'', PNone),
     (''update_available'', PBool False),
     (''latest_version'', PNone),
     (''installation_type'', PStr ''remote''),
     (''permissions'', PList [PStr ''storage.read'', PStr ''storage.write'', PStr ''api.access'', PStr ''settings.manage''])]\<close>

definition service :: "string list \<Rightarrow> pyval" where
  "service methods = sdict [(''methods'', PList (map PStr methods)), (''version'', PStr ''1.0.0'')]"

definition settings_service :: pyval where
  "settings_service =
     service [''getSetting'', ''setSetting'', ''registerSettingDefinition'', ''getSettingDefinitions'',
              ''subscribe'', ''subscribeToCategory'']"

definition layout_of :: "int \<Rightarrow> int \<Rightarrow> int \<Rightarrow> int \<Rightarrow> pyval" where
  "layout_of mw mh dw dh =
     sdict [(''minWidth'', PInt mw), (''minHeight'', PInt mh),
            (''defaultWidth'', PInt dw), (''defaultHeight'', PInt dh)]"

definition no_messages :: pyval where
  "no_messages = sdict [(''sends'', PList []), (''receives'', PList [])]"

definition theme_module :: pydict where
  "theme_module =
    [(''name'', PStr ''ComponentTheme''),
     (''display_name'', PStr ''Theme Settings''),
     (''description'', PStr ''Change application theme''),
     (''icon'', PStr ''DarkMode''),
     (''category'', PStr ''Settings''),
     (''priority'', PInt 1),
     (''props'', PDict []),
     (''config_fields'', PDict []),
     (''messages'', no_messages),
     (''required_services'', sdict
        [(''theme'', service [''getCurrentTheme'', ''setTheme'', ''toggleTheme'',
                              ''addThemeChangeListener'', ''removeThemeChangeListener'']),
         (''settings'', settings_service)]),
     (''dependencies'', PList []),
     (''layout'', layout_of 6 1 12 1),
     (''tags'', PList [PStr ''Settings'', PStr ''Theme Settings''])]"

definition general_settings_module :: pydict where
  "general_settings_module =
    [(''name'', PStr ''ComponentGeneralSettings''),
     (''display_name'', PStr ''General Settings''),
     (''description'', PStr ''Manage general application settings''),
     (''icon'', PStr ''Settings''),
     (''category'', PStr ''Settings''),
     (''priority'', PInt 1),
     (''props'', PDict []),
     (''config_fields'', PDict []),
     (''messages'', no_messages),
     (''required_services'', sdict
        [(''api'', service [''get'', ''post'']),
         (''theme'', service [''getCurrentTheme'', ''addThemeChangeListener'',
                              ''removeThemeChangeListener'']),
         (''settings'', settings_service)]),
     (''dependencies'', PList []),
     (''layout'', layout_of 6 1 12 1),
     (''tags'', PList [PStr ''Settings'', PStr ''General Settings''])]"

definition ollama_server_module :: pydict where
  "ollama_server_module =
    [(''name'', PStr ''ComponentOllamaServer''),
     (''display_name'', PStr ''Ollama Servers''),
     (''description'', PStr ''Manage multiple Ollama server connections''),
     (''icon'', PStr ''Storage''),
     (''category'', PStr ''LLM Servers''),
     (''priority'', PInt 1),
     (''props'', PDict []),
     (''config_fields'', PDict []),
     (''messages'', no_messages),
     (''required_services'', sdict
        [(''api'', service [''get'', ''post'', ''delete'']),
         (''theme'', service [''getCurrentTheme'', ''addThemeChangeListener'',
                              ''removeThemeChangeListener'']),
         (''settings'', settings_service)]),
     (''dependencies'', PList []),
     (''layout'', layout_of 6 4 8 5),
     (''tags'', PList [PStr ''Settings'', PStr ''Ollama Server Settings'', PStr ''Multiple Servers''])]"

definition module_data :: "pydict list" where
  "module_data = [theme_module, general_settings_module, ollama_server_module]"

definition theme_default :: string where
  \<open>theme_default = ''{"theme": "light", "useSystemTheme": false}''\<close>

definition ollama_default :: string where
  \<open>ollama_default = ''{"servers": [{"id": "server_1742054635336_5puc3mrll", "serverName": "New Server", "serverAddress": "http://localhost:11434", "apiKey": "", "connectionStatus": "idle"}]}''\<close>

definition all_scopes :: string where
  \<open>all_scopes = ''["system", "user", "page", "user_page"]''\<close>

definition auto_tags :: string where
  \<open>auto_tags = ''["auto_generated"]''\<close>

definition theme_settings_definition :: pydict where
  \<open>theme_settings_definition =
    [(''id'', PStr ''theme_settings''),
     (''name'', PStr ''Theme Settings''),
     (''description'', PStr ''Auto-generated definition for Theme Settings''),
     (''category'', PStr ''auto_generated''),
     (''type'', PStr ''object''),
     (''default_value'', PStr theme_default),
     (''allowed_scopes'', PStr all_scopes),
     (''validation'', PNone),
     (''is_multiple'', PBool False),
     (''tags'', PStr auto_tags)]\<close>

definition ollama_servers_settings_definition :: pydict where
  \<open>ollama_servers_settings_definition =
    [(''id'', PStr ''ollama_servers_settings''),
     (''name'', PStr ''Ollama Servers Settings''),
     (''description'', PStr ''Auto-generated definition for Ollama Servers Settings''),
     (''category'', PStr ''auto_generated''),
     (''type'', PStr ''object''),
     (''default_value'', PStr ollama_default),
     (''allowed_scopes'', PStr all_scopes),
     (''validation'', PNone),
     (''is_multiple'', PBool False),
     (''tags'', PStr auto_tags)]\<close>

definition general_settings_definition :: pydict where
  \<open>general_settings_definition =
    [(''id'', PStr ''general_settings''),
     (''name'', PStr ''General Settings''),
     (''description'', PStr ''Auto-generated definition for General Settings''),
     (''category'', PStr ''auto_generated''),
     (''type'', PStr ''object''),
     (''default_value'', PStr ''{"settings":[{"Setting_Name":"default_page","Setting_Data":"Dashboard","Setting_Help":"This is the first page to be displayed after logging in to BrainDrive"}]}''),
     (''allowed_scopes'', PStr all_scopes),
     (''validation'', PNone),
     (''is_multiple'', PBool False),
     (''tags'', PStr auto_tags)]\<close>

definition PLUGIN_SETTINGS_DEFINITIONS :: "pydict list" where
  "PLUGIN_SETTINGS_DEFINITIONS =
     [theme_settings_definition, ollama_servers_settings_definition,
      general_settings_definition]"

text \<open>The list local to \<^verbatim>\<open>_create_settings_instances\<close>.\<close>

definition theme_settings_instance :: pydict where
  \<open>theme_settings_instance =
    [(''definition_id'', PStr ''theme_settings''),
     (''name'', PStr ''Theme Settings''),
     (''value'', PStr theme_default),
     (''scope'', PStr ''user'')]\<close>

definition ollama_servers_settings_instance :: pydict where
  \<open>ollama_servers_settings_instance =
    [(''definition_id'', PStr ''ollama_servers_settings''),
     (''name'', PStr ''Ollama Servers Settings''),
     (''value'', PStr ollama_default),
     (''scope'', PStr ''user'')]\<close>

definition general_settings_instance :: pydict where
  \<open>general_settings_instance =
    [(''definition_id'', PStr ''general_settings''),
     (''name'', PStr ''General Settings''),
     (''value'', PStr ''{"settings": [{"Setting_Name": "default_page", "Setting_Data": "Dashboard", "Setting_Help": "This is the first page to be displayed after logging in to BrainDrive"}]}''),
     (''scope'', PStr ''user'')]\<close>

definition settings_instances_data :: "pydict list" where
  "settings_instances_data =
     [theme_settings_instance, ollama_servers_settings_instance, general_settings_instance]"

section \<open>Rows of the store: existence check, settings, plugin and modules\<close>

text \<open>Result dictionaries of the internal steps.\<close>

definition failure :: "string \<Rightarrow> pydict" where
  "failure msg = [(''success'', PBool False), (''error'', PStr msg)]"

definition succeeded :: "pydict \<Rightarrow> bool" where
  "succeeded r = truthy (dsub r ''success'')"

text \<open>
  \<^verbatim>\<open>_check_existing_plugin\<close>: the first plugin row of the user with this slug. An error of
  the query is caught and reported as \<open>exists: False\<close> with an \<open>error\<close> entry.
\<close>

definition plugin_of :: "string \<Rightarrow> row \<Rightarrow> bool" where
  "plugin_of user_id r \<longleftrightarrow>
     col r ''user_id'' = PStr user_id \<and> col r ''plugin_slug'' = dsub plugin_data ''plugin_slug''"

definition check_existing_plugin :: "string \<Rightarrow> world \<Rightarrow> pydict \<times> world" where
  "check_existing_plugin user_id w =
     (case execute_select TPlugin [''id''] (plugin_of user_id) w of
        (Inl e, w') \<Rightarrow> ([(''exists'', PBool False), (''error'', PStr (str_exn e))], w')
      | (Inr result, w') \<Rightarrow>
          (case fetchone result of
             Some existing_plugin \<Rightarrow>
               ([(''exists'', PBool True), (''plugin_id'', existing_plugin ! 0)], w')
           | None \<Rightarrow> ([(''exists'', PBool False)], w')))"

text \<open>
  \<^verbatim>\<open>_ensure_settings_definitions\<close>: for each definition, a query for its id and, when the
  query gives nothing, the current time and an insert. Any exception ends the loop and
  becomes a failure.
\<close>

definition definition_record :: "string \<Rightarrow> pydict \<Rightarrow> row" where
  "definition_record current_time definition_data =
     [(''id'', dsub definition_data ''id''),
      (''name'', dsub definition_data ''name''),
      (''description'', dsub definition_data ''description''),
      (''category'', dsub definition_data ''category''),
      (''type'', dsub definition_data ''type''),
      (''default_value'', dsub definition_data ''default_value''),
      (''allowed_scopes'', dsub definition_data ''allowed_scopes''),
      (''validation'', dsub definition_data ''validation''),
      (''is_multiple'', dsub definition_data ''is_multiple''),
      (''tags'', dsub definition_data ''tags''),
      (''created_at'', PStr current_time),
      (''updated_at'', PStr current_time)]"

fun ensure_settings_definitions_loop :: "env \<Rightarrow> pydict list \<Rightarrow> world \<Rightarrow> (exn + unit) \<times> world" where
  "ensure_settings_definitions_loop env [] w = (Inr (), w)"
| "ensure_settings_definitions_loop env (definition_data # rest) w =
     (case execute_select TSettingsDefinitions [''id'']
             (\<lambda>r. col r ''id'' = dsub definition_data ''id'') w of
        (Inl e, w1) \<Rightarrow> (Inl e, w1)
      | (Inr result, w1) \<Rightarrow>
          (case scalar_one_or_none result of
             Inl e \<Rightarrow> (Inl e, w1)
           | Inr existing \<Rightarrow>
               if \<not> truthy existing then
                 (case now_formatted env of
                    Inl e \<Rightarrow> (Inl e, w1)
                  | Inr current_time \<Rightarrow>
                      (case execute_insert TSettingsDefinitions
                              (definition_record current_time definition_data) w1 of
                         (Inl e, w2) \<Rightarrow> (Inl e, w2)
                       | (Inr u, w2) \<Rightarrow> ensure_settings_definitions_loop env rest w2))
               else ensure_settings_definitions_loop env rest w1))"

definition ensure_settings_definitions :: "env \<Rightarrow> world \<Rightarrow> pydict \<times> world" where
  "ensure_settings_definitions env w =
     (case ensure_settings_definitions_loop env PLUGIN_SETTINGS_DEFINITIONS w of
        (Inr u, w') \<Rightarrow> ([(''success'', PBool True)], w')
      | (Inl e, w') \<Rightarrow> (failure (str_exn e), w'))"

text \<open>
  \<^verbatim>\<open>_create_settings_instances\<close>: the current time, and then for each of the three
  instances a query for a row of this definition, user and scope and, when it gives nothing,
  an insert under a fresh identifier (\<^verbatim>\<open>str(uuid4()).replace('-', '')\<close>).
\<close>

definition instance_of :: "string \<Rightarrow> pydict \<Rightarrow> row \<Rightarrow> bool" where
  "instance_of user_id instance_data r \<longleftrightarrow>
     col r ''definition_id'' = dsub instance_data ''definition_id'' \<and>
     col r ''user_id'' = PStr user_id \<and>
     col r ''scope'' = dsub instance_data ''scope''"

definition instance_record :: "string \<Rightarrow> string \<Rightarrow> string \<Rightarrow> pydict \<Rightarrow> row" where
  "instance_record current_time user_id instance_id instance_data =
     [(''id'', PStr instance_id),
      (''definition_id'', dsub instance_data ''definition_id''),
      (''name'', dsub instance_data ''name''),
      (''value'', dsub instance_data ''value''),
      (''scope'', dsub instance_data ''scope''),
      (''user_id'', PStr user_id),
      (''page_id'', PNone),
      (''created_at'', PStr current_time),
      (''updated_at'', PStr current_time)]"

fun create_settings_instances_loop ::
  "env \<Rightarrow> string \<Rightarrow> string \<Rightarrow> pydict list \<Rightarrow> pyval list \<Rightarrow> world \<Rightarrow>
   (exn + pyval list) \<times> world" where
  "create_settings_instances_loop env current_time user_id [] created_instances w =
     (Inr created_instances, w)"
| "create_settings_instances_loop env current_time user_id (instance_data # rest)
     created_instances w =
     (case execute_select TSettingsInstances [''id''] (instance_of user_id instance_data) w of
        (Inl e, w1) \<Rightarrow> (Inl e, w1)
      | (Inr result, w1) \<Rightarrow>
          (case scalar_one_or_none result of
             Inl e \<Rightarrow> (Inl e, w1)
           | Inr existing \<Rightarrow>
               if \<not> truthy existing then
                 (let instance_id = filter (\<lambda>c. c \<noteq> CHR ''-'') (uuid4 env (uuid_calls w1));
                      w2 = w1\<lparr>uuid_calls := Suc (uuid_calls w1)\<rparr>
                  in case execute_insert TSettingsInstances
                            (instance_record current_time user_id instance_id instance_data)
                            w2 of
                       (Inl e, w3) \<Rightarrow> (Inl e, w3)
                     | (Inr u, w3) \<Rightarrow>
                         create_settings_instances_loop env current_time user_id rest
                           (created_instances @ [dsub instance_data ''name'']) w3)
               else
                 create_settings_instances_loop env current_time user_id rest
                   created_instances w1))"

definition create_settings_instances :: "env \<Rightarrow> string \<Rightarrow> world \<Rightarrow> pydict \<times> world" where
  "create_settings_instances env user_id w =
     (case now_formatted env of
        Inl e \<Rightarrow> (failure (str_exn e), w)
      | Inr current_time \<Rightarrow>
          (case create_settings_instances_loop env current_time user_id
                  settings_instances_data [] w of
             (Inr created_instances, w') \<Rightarrow>
               ([(''success'', PBool True), (''created_instances'', PList created_instances)], w')
           | (Inl e, w') \<Rightarrow> (failure (str_exn e), w')))"

text \<open>
  \<^verbatim>\<open>_create_database_records\<close>: the existence check, the settings definitions, the
  settings instances, the current time, the plugin row and one module row per module
  descriptor.
\<close>

definition plugin_record :: "env \<Rightarrow> string \<Rightarrow> string \<Rightarrow> string \<Rightarrow> row" where
  "plugin_record env current_time user_id plugin_id =
     [(''id'', PStr plugin_id),
      (''name'', dsub plugin_data ''name''),
      (''description'', dsub plugin_data ''description''),
      (''version'', dsub plugin_data ''version''),
      (''type'', dsub plugin_data ''type''),
      (''enabled'', PBool True),
      (''icon'', dget plugin_data ''icon'' PNone),
      (''category'', dget plugin_data ''category'' PNone),
      (''status'', PStr ''activated''),
      (''official'', dget plugin_data ''official'' (PBool True)),
      (''author'', dget plugin_data ''author'' (PStr ''BrainDrive Team'')),
      (''last_updated'', PStr ''2025-03-06''),
      (''compatibility'', dget plugin_data ''compatibility'' (PStr ''1.0.0'')),
      (''downloads'', PInt 0),
      (''scope'', dget plugin_data ''scope'' PNone),
      (''bundle_method'', dget plugin_data ''bundle_method'' PNone),
      (''bundle_location'', dget plugin_data ''bundle_location'' PNone),
      (''is_local'', dget plugin_data ''is_local'' (PBool False)),
      (''long_description'', dget plugin_data ''long_description'' PNone),
      (''config_fields'', PNone),
      (''messages'', PNone),
      (''dependencies'', PNone),
      (''created_at'', PStr current_time),
      (''updated_at'', PStr current_time),
      (''user_id'', PStr user_id),
      (''plugin_slug'', dget plugin_data ''plugin_slug'' PNone),
      (''source_type'', dget plugin_data ''source_type'' PNone),
      (''source_url'', dget plugin_data ''source_url'' PNone),
      (''update_check_url'', dget plugin_data ''update_check_url'' PNone),
      (''last_update_check'', dget plugin_data ''last_update_check'' PNone),
      (''update_available'', dget plugin_data ''update_available'' (PBool False)),
      (''latest_version'', dget plugin_data ''latest_version'' PNone),
      (''installation_type'', dget plugin_data ''installation_type'' PNone),
      (''permissions'', json_dumps env (dget plugin_data ''permissions'' (PList [])))]"

definition module_record :: "env \<Rightarrow> string \<Rightarrow> string \<Rightarrow> string \<Rightarrow> pydict \<Rightarrow> row" where
  "module_record env current_time user_id plugin_id md =
     [(''id'', PStr (user_id @ ''_'' @ fstr (dsub md ''name''))),
      (''plugin_id'', PStr plugin_id),
      (''name'', dsub md ''name''),
      (''display_name'', dget md ''display_name'' PNone),
      (''description'', dget md ''description'' PNone),
      (''icon'', dget md ''icon'' PNone),
      (''category'', dget md ''category'' PNone),
      (''enabled'', PBool True),
      (''priority'', dget md ''priority'' (PInt 1)),
      (''props'', json_dumps env (dget md ''props'' (PDict []))),
      (''config_fields'', json_dumps env (dget md ''config_fields'' (PDict []))),
      (''messages'', json_dumps env (dget md ''messages'' (PDict []))),
      (''required_services'', json_dumps env (dget md ''required_services'' (PDict []))),
      (''dependencies'', json_dumps env (dget md ''dependencies'' (PList []))),
      (''layout'', json_dumps env (dget md ''layout'' (PDict []))),
      (''tags'', json_dumps env (dget md ''tags'' (PList []))),
      (''created_at'', PStr current_time),
      (''updated_at'', PStr current_time),
      (''user_id'', PStr user_id)]"

fun create_modules_loop ::
  "env \<Rightarrow> string \<Rightarrow> string \<Rightarrow> string \<Rightarrow> pydict list \<Rightarrow> pyval list \<Rightarrow> world \<Rightarrow>
   (exn + pyval list) \<times> world" where
  "create_modules_loop env current_time user_id plugin_id [] modules_created w =
     (Inr modules_created, w)"
| "create_modules_loop env current_time user_id plugin_id (md # rest) modules_created w =
     (case execute_insert TModule (module_record env current_time user_id plugin_id md) w of
        (Inl e, w1) \<Rightarrow> (Inl e, w1)
      | (Inr u, w1) \<Rightarrow>
          create_modules_loop env current_time user_id plugin_id rest
            (modules_created @ [dsub md ''name'']) w1)"

definition plugin_id_of :: "string \<Rightarrow> string" where
  "plugin_id_of user_id = user_id @ ''_'' @ fstr (dsub plugin_data ''plugin_slug'')"

definition create_database_records :: "env \<Rightarrow> string \<Rightarrow> world \<Rightarrow> pydict \<times> world" where
  "create_database_records env user_id w =
     (case check_existing_plugin user_id w of (existing_check, w1) \<Rightarrow>
        if truthy (dsub existing_check ''exists'') then
          (failure ''Plugin already exists for user'', w1)
        else
          (case ensure_settings_definitions env w1 of (settings_def_result, w2) \<Rightarrow>
             if \<not> succeeded settings_def_result then (settings_def_result, w2)
             else
               (case create_settings_instances env user_id w2 of (settings_inst_result, w3) \<Rightarrow>
                  if \<not> succeeded settings_inst_result then (settings_inst_result, w3)
                  else
                    (case now_formatted env of
                       Inl e \<Rightarrow> (failure (str_exn e), w3)
                     | Inr current_time \<Rightarrow>
                    (case execute_insert TPlugin
                            (plugin_record env current_time user_id (plugin_id_of user_id)) w3 of
                       (Inl e, w4) \<Rightarrow> (failure (str_exn e), w4)
                     | (Inr u, w4) \<Rightarrow>
                         (case create_modules_loop env current_time user_id (plugin_id_of user_id)
                                 module_data [] w4 of
                            (Inl e, w5) \<Rightarrow> (failure (str_exn e), w5)
                          | (Inr modules_created, w5) \<Rightarrow>
                              ([(''success'', PBool True),
                                (''plugin_id'', PStr (plugin_id_of user_id)),
                                (''modules_created'', PList modules_created),
                                (''settings_created'', dsub settings_inst_result ''created_instances'')],
                               w5)))))))"

text \<open>
  \<^verbatim>\<open>_delete_database_records\<close>: the module rows of the user and plugin id first, then the
  plugin row; \<open>deleted_modules\<close> is the row count of the first statement.
\<close>

definition delete_database_records :: "string \<Rightarrow> pyval \<Rightarrow> world \<Rightarrow> pydict \<times> world" where
  "delete_database_records user_id plugin_id w =
     (case execute_delete TModule
             (\<lambda>r. col r ''user_id'' = PStr user_id \<and> col r ''plugin_id'' = plugin_id) w of
        (Inl e, w1) \<Rightarrow> (failure (str_exn e), w1)
      | (Inr deleted_modules, w1) \<Rightarrow>
          (case execute_delete TPlugin
                  (\<lambda>r. col r ''user_id'' = PStr user_id \<and> col r ''id'' = plugin_id) w1 of
             (Inl e, w2) \<Rightarrow> (failure (str_exn e), w2)
           | (Inr n, w2) \<Rightarrow>
               ([(''success'', PBool True), (''deleted_modules'', PInt (int deleted_modules))], w2)))"

section \<open>Export and import of the user's configuration\<close>

text \<open>\<^verbatim>\<open>json.loads(x) if x else default\<close>.\<close>

definition loads_or :: "env \<Rightarrow> pyval \<Rightarrow> pyval \<Rightarrow> exn + pyval" where
  "loads_or env x dflt = (if truthy x then json_loads env x else Inr dflt)"

definition export_plugin_config :: "env \<Rightarrow> pyval list \<Rightarrow> exn + pyval" where
  "export_plugin_config env plugin_row =
     (case loads_or env (plugin_row ! 0) (PDict []) of
        Inl e \<Rightarrow> Inl e
      | Inr config_fields \<Rightarrow>
     (case loads_or env (plugin_row ! 1) (PDict []) of
        Inl e \<Rightarrow> Inl e
      | Inr messages \<Rightarrow>
     (case loads_or env (plugin_row ! 2) (PList []) of
        Inl e \<Rightarrow> Inl e
      | Inr dependencies \<Rightarrow>
          Inr (sdict [(''config_fields'', config_fields), (''messages'', messages),
                      (''dependencies'', dependencies)]))))"

definition export_module_config :: "env \<Rightarrow> pyval list \<Rightarrow> exn + pyval" where
  "export_module_config env row =
     (case loads_or env (row ! 1) (PDict []) of
        Inl e \<Rightarrow> Inl e
      | Inr props \<Rightarrow>
     (case loads_or env (row ! 2) (PDict []) of
        Inl e \<Rightarrow> Inl e
      | Inr config_fields \<Rightarrow>
     (case loads_or env (row ! 3) (PDict []) of
        Inl e \<Rightarrow> Inl e
      | Inr messages \<Rightarrow>
     (case loads_or env (row ! 4) (PDict []) of
        Inl e \<Rightarrow> Inl e
      | Inr layout \<Rightarrow>
          Inr (sdict [(''props'', props), (''config_fields'', config_fields),
                      (''messages'', messages), (''layout'', layout)])))))"

text \<open>
  The plugin part of the export: no row gives the empty dictionary, and so does a row with a
  field that is not JSON (the JSONDecodeError is caught); any other exception goes on. The
  time stamp is the last entry that the export computes.
\<close>

definition export_plugin_part :: "env \<Rightarrow> pyval list list \<Rightarrow> exn + pyval" where
  "export_plugin_part env plugin_result =
     (case fetchone plugin_result of
        None \<Rightarrow> Inr (PDict [])
      | Some plugin_row \<Rightarrow>
          (case export_plugin_config env plugin_row of
             Inr plugin_config \<Rightarrow> Inr plugin_config
           | Inl e \<Rightarrow> if exn_class_of e = JSONDecodeError then Inr (PDict []) else Inl e))"

text \<open>The module part: a row with a field that is not JSON is skipped.\<close>

fun export_modules_loop ::
  "env \<Rightarrow> pyval list list \<Rightarrow> (pyval \<times> pyval) list \<Rightarrow> exn + (pyval \<times> pyval) list" where
  "export_modules_loop env [] modules_config = Inr modules_config"
| "export_modules_loop env (row # rest) modules_config =
     (case export_module_config env row of
        Inr module_config \<Rightarrow>
          export_modules_loop env rest (assign modules_config (row ! 0) module_config)
      | Inl e \<Rightarrow>
          if exn_class_of e = JSONDecodeError then export_modules_loop env rest modules_config
          else Inl e)"

definition module_of_pattern :: "string \<Rightarrow> row \<Rightarrow> bool" where
  "module_of_pattern user_id r \<longleftrightarrow>
     col r ''user_id'' = PStr user_id \<and> sql_like (col r ''plugin_id'') (plugin_id_of user_id)"

definition export_user_data :: "env \<Rightarrow> string \<Rightarrow> world \<Rightarrow> pydict \<times> world" where
  "export_user_data env user_id w =
     (case execute_select TPlugin [''config_fields'', ''messages'', ''dependencies'']
             (plugin_of user_id) w of
        (Inl e, w1) \<Rightarrow> (failure (str_exn e), w1)
      | (Inr plugin_result, w1) \<Rightarrow>
          (case export_plugin_part env plugin_result of
             Inl e \<Rightarrow> (failure (str_exn e), w1)
           | Inr plugin_config \<Rightarrow>
               (case execute_select TModule
                       [''name'', ''props'', ''config_fields'', ''messages'', ''layout'']
                       (module_of_pattern user_id) w1 of
                  (Inl e, w2) \<Rightarrow> (failure (str_exn e), w2)
                | (Inr module_result, w2) \<Rightarrow>
                    (case export_modules_loop env module_result [] of
                       Inl e \<Rightarrow> (failure (str_exn e), w2)
                     | Inr modules_config \<Rightarrow>
                         (case now_iso env of
                            Inl e \<Rightarrow> (failure (str_exn e), w2)
                          | Inr export_timestamp \<Rightarrow>
                              ([(''success'', PBool True),
                                (''data'', sdict [(''plugin_config'', plugin_config),
                                                  (''modules_config'', PDict modules_config),
                                                  (''export_timestamp'', PStr export_timestamp)])],
                               w2))))))"

text \<open>
  \<^verbatim>\<open>_import_user_data\<close>: an update of the plugin row when the exported plugin configuration
  is not empty, and one update per exported module, on the rows with the composite ids.
  The body runs inside \<^verbatim>\<open>try\<close>; the handler logs and returns, so the function gives only
  the new state.
\<close>

definition import_plugin_config :: "env \<Rightarrow> string \<Rightarrow> pyval \<Rightarrow> world \<Rightarrow> (exn + unit) \<times> world" where
  "import_plugin_config env user_id plugin_config w =
     (if truthy plugin_config then
        (case py_get plugin_config ''config_fields'' (PDict []) of
           Inl e \<Rightarrow> (Inl e, w)
         | Inr config_fields \<Rightarrow>
        (case py_get plugin_config ''messages'' (PDict []) of
           Inl e \<Rightarrow> (Inl e, w)
         | Inr messages \<Rightarrow>
        (case py_get plugin_config ''dependencies'' (PList []) of
           Inl e \<Rightarrow> (Inl e, w)
         | Inr dependencies \<Rightarrow>
             execute_update TPlugin
               [(''config_fields'', json_dumps env config_fields),
                (''messages'', json_dumps env messages),
                (''dependencies'', json_dumps env dependencies)]
               (\<lambda>r. col r ''user_id'' = PStr user_id \<and> col r ''id'' = PStr (plugin_id_of user_id))
               w)))
      else (Inr (), w))"

definition import_module_config ::
  "env \<Rightarrow> string \<Rightarrow> pyval \<Rightarrow> pyval \<Rightarrow> world \<Rightarrow> (exn + unit) \<times> world" where
  "import_module_config env user_id module_name module_config w =
     (case py_get module_config ''props'' (PDict []) of
        Inl e \<Rightarrow> (Inl e, w)
      | Inr props \<Rightarrow>
     (case py_get module_config ''config_fields'' (PDict []) of
        Inl e \<Rightarrow> (Inl e, w)
      | Inr config_fields \<Rightarrow>
     (case py_get module_config ''messages'' (PDict []) of
        Inl e \<Rightarrow> (Inl e, w)
      | Inr messages \<Rightarrow>
     (case py_get module_config ''layout'' (PDict []) of
        Inl e \<Rightarrow> (Inl e, w)
      | Inr layout \<Rightarrow>
          execute_update TModule
            [(''props'', json_dumps env props),
             (''config_fields'', json_dumps env config_fields),
             (''messages'', json_dumps env messages),
             (''layout'', json_dumps env layout)]
            (\<lambda>r. col r ''user_id'' = PStr user_id \<and>
                 col r ''id'' = PStr (user_id @ ''_'' @ fstr module_name))
            w))))"

fun import_modules_loop ::
  "env \<Rightarrow> string \<Rightarrow> (pyval \<times> pyval) list \<Rightarrow> world \<Rightarrow> (exn + unit) \<times> world" where
  "import_modules_loop env user_id [] w = (Inr (), w)"
| "import_modules_loop env user_id ((module_name, module_config) # rest) w =
     (case import_module_config env user_id module_name module_config w of
        (Inl e, w1) \<Rightarrow> (Inl e, w1)
      | (Inr u, w1) \<Rightarrow> import_modules_loop env user_id rest w1)"

definition import_user_data_body :: "env \<Rightarrow> string \<Rightarrow> pyval \<Rightarrow> world \<Rightarrow> (exn + unit) \<times> world" where
  "import_user_data_body env user_id user_data w =
     (if \<not> truthy user_data then (Inr (), w)
      else
        (case py_in ''data'' user_data of
           Inl e \<Rightarrow> (Inl e, w)
         | Inr present \<Rightarrow>
             if \<not> present then (Inr (), w)
             else
               (case py_subscript user_data ''data'' of
                  Inl e \<Rightarrow> (Inl e, w)
                | Inr data \<Rightarrow>
               (case py_get data ''plugin_config'' (PDict []) of
                  Inl e \<Rightarrow> (Inl e, w)
                | Inr plugin_config \<Rightarrow>
               (case py_get data ''modules_config'' (PDict []) of
                  Inl e \<Rightarrow> (Inl e, w)
                | Inr modules_config \<Rightarrow>
               (case import_plugin_config env user_id plugin_config w of
                  (Inl e, w1) \<Rightarrow> (Inl e, w1)
                | (Inr u, w1) \<Rightarrow>
               (case py_items modules_config of
                  Inl e \<Rightarrow> (Inl e, w1)
                | Inr items \<Rightarrow> import_modules_loop env user_id items w1)))))))"

definition import_user_data :: "env \<Rightarrow> string \<Rightarrow> pyval \<Rightarrow> world \<Rightarrow> world" where
  "import_user_data env user_id user_data w = snd (import_user_data_body env user_id user_data w)"

section \<open>Files\<close>

text \<open>
  The files of the machine are a list of absolute paths (lists of components, the root
  being \<open>[]\<close>) with a regular file or a directory at each. Opening a directory, or a file
  without read permission, and listing something that is not a directory raise, as the
  operating system has it. Write permissions and full disks are not part of this picture.
\<close>

definition path_str :: "path \<Rightarrow> string" where
  "path_str p = concat (map (\<lambda>c. CHR ''/'' # c) p)"

text \<open>The errors of the operating system, with the text that \<^verbatim>\<open>str(e)\<close> gives.\<close>

definition os_error :: "exn_class \<Rightarrow> string \<Rightarrow> string \<Rightarrow> path \<Rightarrow> exn" where
  "os_error c errno msg p =
     Exn c (''[Errno '' @ errno @ ''] '' @ msg @ '': '' @ quoted (path_str p))"

definition no_such_file :: "path \<Rightarrow> exn" where
  "no_such_file p = os_error FileNotFoundError ''2'' ''No such file or directory'' p"

definition permission_denied :: "path \<Rightarrow> exn" where
  "permission_denied p = os_error PermissionError ''13'' ''Permission denied'' p"

definition file_exists :: "path \<Rightarrow> exn" where
  "file_exists p = os_error FileExistsError ''17'' ''File exists'' p"

definition not_a_directory :: "path \<Rightarrow> exn" where
  "not_a_directory p = os_error NotADirectoryError ''20'' ''Not a directory'' p"

definition is_a_directory :: "path \<Rightarrow> exn" where
  "is_a_directory p = os_error IsADirectoryError ''21'' ''Is a directory'' p"

definition path_exists :: "filesystem \<Rightarrow> path \<Rightarrow> bool" where
  "path_exists fs p \<longleftrightarrow> p = [] \<or> map_of fs p \<noteq> None"

definition is_file :: "filesystem \<Rightarrow> path \<Rightarrow> bool" where
  "is_file fs p = (case map_of fs p of Some (File r c) \<Rightarrow> True | _ \<Rightarrow> False)"

definition is_dir :: "filesystem \<Rightarrow> path \<Rightarrow> bool" where
  "is_dir fs p = (p = [] \<or> (case map_of fs p of Some (Dir n) \<Rightarrow> True | _ \<Rightarrow> False))"

definition st_size :: "filesystem \<Rightarrow> path \<Rightarrow> exn + nat" where
  "st_size fs p =
     (case map_of fs p of
        Some (File r c) \<Rightarrow> Inr (length c)
      | Some (Dir n) \<Rightarrow> Inr n
      | None \<Rightarrow> Inl (no_such_file p))"

definition open_read :: "filesystem \<Rightarrow> path \<Rightarrow> exn + string" where
  "open_read fs p =
     (case map_of fs p of
        Some (File r c) \<Rightarrow> if r then Inr c else Inl (permission_denied p)
      | Some (Dir n) \<Rightarrow> Inl (is_a_directory p)
      | None \<Rightarrow> Inl (no_such_file p))"

definition iterdir :: "filesystem \<Rightarrow> path \<Rightarrow> exn + path list" where
  "iterdir fs p =
     (case map_of fs p of
        Some (Dir n) \<Rightarrow> Inr (filter (\<lambda>q. q \<noteq> [] \<and> butlast q = p) (map fst fs))
      | Some (File r c) \<Rightarrow> Inl (not_a_directory p)
      | None \<Rightarrow> Inl (no_such_file p))"

text \<open>
  \<^verbatim>\<open>p.mkdir(parents=True, exist_ok=True)\<close>: each missing directory on the way is created;
  a regular file at \<open>p\<close> raises FileExistsError, a regular file on the way raises
  NotADirectoryError for \<open>p\<close>. The directories created before the error stay.
\<close>

fun mkdir_from :: "path \<Rightarrow> string list \<Rightarrow> filesystem \<Rightarrow> (exn + unit) \<times> filesystem" where
  "mkdir_from p [] fs = (Inr (), fs)"
| "mkdir_from p (c # cs) fs =
     (case map_of fs (p @ [c]) of
        Some (Dir n) \<Rightarrow> mkdir_from (p @ [c]) cs fs
      | Some (File r s) \<Rightarrow>
          (Inl (if cs = [] then file_exists (p @ [c]) else not_a_directory (p @ c # cs)), fs)
      | None \<Rightarrow> mkdir_from (p @ [c]) cs (fs @ [(p @ [c], Dir 4096)]))"

definition mkdir_parents :: "path \<Rightarrow> filesystem \<Rightarrow> (exn + unit) \<times> filesystem" where
  "mkdir_parents p fs = mkdir_from [] p fs"

text \<open>
  \<^verbatim>\<open>shutil.copy2(src, dst)\<close>: a destination that is a directory receives the file under
  the source's name.
\<close>

definition copy2 :: "path \<Rightarrow> path \<Rightarrow> filesystem \<Rightarrow> (exn + unit) \<times> filesystem" where
  "copy2 src dst fs =
     (case open_read fs src of
        Inl e \<Rightarrow> (Inl e, fs)
      | Inr c \<Rightarrow>
          (let dst' = (if is_dir fs dst then dst @ [last src] else dst) in
           if is_dir fs dst' then (Inl (is_a_directory dst'), fs)
           else if is_file fs (butlast dst') then (Inl (not_a_directory dst'), fs)
           else if \<not> is_dir fs (butlast dst') then (Inl (no_such_file dst'), fs)
           else (Inr (), assign fs dst' (File True c))))"

definition unlink :: "path \<Rightarrow> filesystem \<Rightarrow> (exn + unit) \<times> filesystem" where
  "unlink p fs =
     (case map_of fs p of
        Some (File r c) \<Rightarrow> (Inr (), filter (\<lambda>(q, n). q \<noteq> p) fs)
      | Some (Dir n) \<Rightarrow> (Inl (is_a_directory p), fs)
      | None \<Rightarrow> (Inl (no_such_file p), fs))"

text \<open>\<^verbatim>\<open>source_dir.rglob('*')\<close>: everything below the directory.\<close>

definition rglob :: "filesystem \<Rightarrow> path \<Rightarrow> path list" where
  "rglob fs d = filter (strict_prefix d) (map fst fs)"

text \<open>A relative path written with slashes, as \<^verbatim>\<open>plugin_dir / "dist/remoteEntry.js"\<close> reads it.\<close>

fun split_slash :: "string \<Rightarrow> string \<Rightarrow> string list" where
  "split_slash acc [] = [acc]"
| "split_slash acc (c # cs) =
     (if c = CHR ''/'' then acc # split_slash [] cs else split_slash (acc @ [c]) cs)"

definition join_path :: "path \<Rightarrow> string \<Rightarrow> path" where
  "join_path d s = d @ filter (\<lambda>part. part \<noteq> []) (split_slash [] s)"

fun join_str :: "string \<Rightarrow> string list \<Rightarrow> string" where
  "join_str sep [] = []"
| "join_str sep [x] = x"
| "join_str sep (x # y # ys) = x @ sep @ join_str sep (y # ys)"

subsection \<open>Copying the plugin's files\<close>

definition exclude_patterns :: "string list" where
  "exclude_patterns =
     [''node_modules'', ''package-lock.json'', ''.git'', ''.gitignore'', ''__pycache__'',
      ''*.pyc'', ''.DS_Store'', ''Thumbs.db'']"

definition should_copy :: "path \<Rightarrow> bool" where
  "should_copy p \<longleftrightarrow>
     (\<forall>part \<in> set p. part \<notin> set exclude_patterns) \<and>
     (\<forall>pattern \<in> set exclude_patterns.
        \<not> (CHR ''*'' \<in> set pattern \<and>
           suffix (filter (\<lambda>c. c \<noteq> CHR ''*'') pattern) (if p = [] then [] else last p)))"

text \<open>
  The body of the inner \<^verbatim>\<open>try\<close> for one item: a file is copied after its parent
  directories are made (and after the old file is removed on an update), a directory is
  made. The flag says whether the item was added to \<open>copied_files\<close>; an exception leaves
  the item out and the loop goes on.
\<close>

definition copy_item :: "bool \<Rightarrow> path \<Rightarrow> path \<Rightarrow> filesystem \<Rightarrow> bool \<times> filesystem" where
  "copy_item update item target_path fs =
     (if is_file fs item then
        (case mkdir_parents (butlast target_path) fs of
           (Inl e, fs1) \<Rightarrow> (False, fs1)
         | (Inr u, fs1) \<Rightarrow>
             (case (if update \<and> path_exists fs1 target_path then unlink target_path fs1
                    else (Inr (), fs1)) of
                (Inl e, fs2) \<Rightarrow> (False, fs2)
              | (Inr u, fs2) \<Rightarrow>
                  (case copy2 item target_path fs2 of
                     (Inl e, fs3) \<Rightarrow> (False, fs3)
                   | (Inr u, fs3) \<Rightarrow> (True, fs3))))
      else if is_dir fs item then (False, snd (mkdir_parents target_path fs))
      else (False, fs))"

fun copy_items ::
  "path \<Rightarrow> path \<Rightarrow> bool \<Rightarrow> path list \<Rightarrow> string list \<Rightarrow> filesystem \<Rightarrow> string list \<times> filesystem" where
  "copy_items source_dir target_dir update [] copied_files fs = (copied_files, fs)"
| "copy_items source_dir target_dir update (item # rest) copied_files fs =
     (if last item = ''lifecycle_manager.py'' \<and> item = source_dir @ [''lifecycle_manager.py'']
      then copy_items source_dir target_dir update rest copied_files fs
      else
        (let relative_path = drop (length source_dir) item in
         if \<not> should_copy relative_path
         then copy_items source_dir target_dir update rest copied_files fs
         else
           (case copy_item update item (target_dir @ relative_path) fs of
              (True, fs') \<Rightarrow>
                copy_items source_dir target_dir update rest
                  (copied_files @ [join_str ''/'' relative_path]) fs'
            | (False, fs') \<Rightarrow> copy_items source_dir target_dir update rest copied_files fs')))"

text \<open>
  \<^verbatim>\<open>_copy_plugin_files_impl\<close>: every item below the manager's own directory, then the
  manager's file itself; an exception of that last copy makes the whole step fail.
\<close>

definition copy_plugin_files_impl ::
  "env \<Rightarrow> string \<Rightarrow> path \<Rightarrow> bool \<Rightarrow> filesystem \<Rightarrow> pydict \<times> filesystem" where
  "copy_plugin_files_impl env user_id target_dir update fs =
     (let source_dir = file_parent env;
          lifecycle_manager_source = source_dir @ [''lifecycle_manager.py''];
          lifecycle_manager_target = target_dir @ [''lifecycle_manager.py'']
      in case copy_items source_dir target_dir update (rglob fs source_dir) [] fs of
           (copied_files, fs1) \<Rightarrow>
             if path_exists fs1 lifecycle_manager_source then
               (case mkdir_parents (butlast lifecycle_manager_target) fs1 of
                  (Inl e, fs2) \<Rightarrow> (failure (str_exn e), fs2)
                | (Inr u, fs2) \<Rightarrow>
                    (case (if update \<and> path_exists fs2 lifecycle_manager_target
                           then unlink lifecycle_manager_target fs2 else (Inr (), fs2)) of
                       (Inl e, fs3) \<Rightarrow> (failure (str_exn e), fs3)
                     | (Inr u, fs3) \<Rightarrow>
                         (case copy2 lifecycle_manager_source lifecycle_manager_target fs3 of
                            (Inl e, fs4) \<Rightarrow> (failure (str_exn e), fs4)
                          | (Inr u, fs4) \<Rightarrow>
                              ([(''success'', PBool True),
                                (''copied_files'',
                                 PList (map PStr (copied_files @ [''lifecycle_manager.py''])))],
                               fs4))))
             else
               ([(''success'', PBool True), (''copied_files'', PList (map PStr copied_files))],
                fs1))"

subsection \<open>Validation and health of an installed directory\<close>

definition required_files :: "string list" where
  "required_files = [''package.json'', ''dist/remoteEntry.js'']"

definition required_fields :: "string list" where
  "required_fields = [''name'', ''version'']"

definition invalid :: "string \<Rightarrow> pydict" where
  "invalid msg = [(''valid'', PBool False), (''error'', PStr msg)]"

text \<open>
  The loop over the required fields: the first field that is not in the parsed manifest,
  if there is one. \<^verbatim>\<open>field not in package_data\<close> is Python's membership test, which
  raises on a manifest that is a number, a Boolean or null.
\<close>

fun missing_field :: "string list \<Rightarrow> pyval \<Rightarrow> exn + string option" where
  "missing_field [] package_data = Inr None"
| "missing_field (field # rest) package_data =
     (case py_in field package_data of
        Inl e \<Rightarrow> Inl e
      | Inr present \<Rightarrow> if \<not> present then Inr (Some field) else missing_field rest package_data)"

text \<open>
  \<^verbatim>\<open>with open(p, 'r') as f: json.load(f)\<close>: the file is opened, its bytes are decoded and
  the text is parsed; each of the three steps may raise.
\<close>

definition json_load :: "env \<Rightarrow> filesystem \<Rightarrow> path \<Rightarrow> exn + pyval" where
  "json_load env fs p =
     (case open_read fs p of
        Inl e \<Rightarrow> Inl e
      | Inr bytes \<Rightarrow> (case decode env bytes of Inl e \<Rightarrow> Inl e | Inr s \<Rightarrow> loads env s))"

text \<open>
  \<^verbatim>\<open>_validate_installation_impl\<close>. The inner \<^verbatim>\<open>try\<close> holds the reading of the manifest and
  the loop over the required fields; its handler takes a JSONDecodeError and a
  FileNotFoundError. Every other exception reaches the outer handler, which reports the
  text of the exception alone.
\<close>

definition manifest_fields :: "env \<Rightarrow> filesystem \<Rightarrow> path \<Rightarrow> exn + string option" where
  "manifest_fields env fs package_json_path =
     (case json_load env fs package_json_path of
        Inl e \<Rightarrow> Inl e
      | Inr package_data \<Rightarrow> missing_field required_fields package_data)"

definition validate_installation_impl :: "env \<Rightarrow> string \<Rightarrow> path \<Rightarrow> filesystem \<Rightarrow> pydict" where
  "validate_installation_impl env user_id plugin_dir fs =
     (let missing_files =
            filter (\<lambda>file_path. \<not> path_exists fs (join_path plugin_dir file_path)) required_files
      in
      if missing_files \<noteq> [] then
        invalid (''BrainDriveSettings: Missing required files: '' @ join_str '', '' missing_files)
      else
        (case manifest_fields env fs (plugin_dir @ [''package.json'']) of
           Inl e \<Rightarrow>
             if exn_class_of e = JSONDecodeError \<or> exn_class_of e = FileNotFoundError then
               invalid (''BrainDriveSettings: Invalid or missing package.json: '' @ str_exn e)
             else invalid (str_exn e)
         | Inr (Some field) \<Rightarrow>
             invalid (''BrainDriveSettings: package.json missing required field: '' @ field)
         | Inr None \<Rightarrow>
             (case st_size fs (plugin_dir @ [''dist'', ''remoteEntry.js'']) of
                Inl e \<Rightarrow> invalid (str_exn e)
              | Inr bundle_size \<Rightarrow>
                  if bundle_size = 0 then
                    invalid ''BrainDriveSettings: Bundle file (remoteEntry.js) is empty''
                  else [(''valid'', PBool True)])))"

text \<open>
  \<^verbatim>\<open>_get_plugin_health_impl\<close>. The three inspections fill \<open>health_info\<close>; of the exceptions
  that reading the manifest may raise, only a JSONDecodeError is caught on the way.
  \<open>health_inspection\<close> is the body of the \<^verbatim>\<open>try\<close>, with the exception that ends it, if any.
\<close>

definition health_bundle :: "filesystem \<Rightarrow> path \<Rightarrow> exn + pydict" where
  "health_bundle fs plugin_dir =
     (let bundle_path = plugin_dir @ [''dist'', ''remoteEntry.js''] in
      if path_exists fs bundle_path then
        (case st_size fs bundle_path of
           Inl e \<Rightarrow> Inl e
         | Inr bundle_size \<Rightarrow>
             Inr [(''bundle_exists'', PBool True), (''bundle_size'', PInt (int bundle_size))])
      else Inr [(''bundle_exists'', PBool False), (''bundle_size'', PInt 0)])"

definition health_package_json :: "env \<Rightarrow> filesystem \<Rightarrow> path \<Rightarrow> exn + bool" where
  "health_package_json env fs plugin_dir =
     (let package_json_path = plugin_dir @ [''package.json''] in
      if path_exists fs package_json_path then
        (case json_load env fs package_json_path of
           Inr v \<Rightarrow> Inr True
         | Inl e \<Rightarrow> if exn_class_of e = JSONDecodeError then Inr False else Inl e)
      else Inr False)"

definition health_assets :: "filesystem \<Rightarrow> path \<Rightarrow> exn + bool" where
  "health_assets fs plugin_dir =
     (let assets_dir = plugin_dir @ [''src''] in
      if path_exists fs assets_dir then
        (case iterdir fs assets_dir of Inl e \<Rightarrow> Inl e | Inr entries \<Rightarrow> Inr (entries \<noteq> []))
      else Inr False)"

definition health_inspection :: "env \<Rightarrow> path \<Rightarrow> filesystem \<Rightarrow> exn + pydict" where
  "health_inspection env plugin_dir fs =
     (case health_bundle fs plugin_dir of
        Inl e \<Rightarrow> Inl e
      | Inr bundle \<Rightarrow>
     (case health_package_json env fs plugin_dir of
        Inl e \<Rightarrow> Inl e
      | Inr package_json_valid \<Rightarrow>
     (case health_assets fs plugin_dir of
        Inl e \<Rightarrow> Inl e
      | Inr assets_present \<Rightarrow>
          Inr (bundle @ [(''package_json_valid'', PBool package_json_valid),
                         (''assets_present'', PBool assets_present)]))))"

definition get_plugin_health_impl :: "env \<Rightarrow> string \<Rightarrow> path \<Rightarrow> filesystem \<Rightarrow> pydict" where
  "get_plugin_health_impl env user_id plugin_dir fs =
     (case health_inspection env plugin_dir fs of
        Inr health_info \<Rightarrow> [(''healthy'', PBool True), (''details'', sdict health_info)]
      | Inl e \<Rightarrow> [(''healthy'', PBool False), (''error'', PStr (str_exn e))])"

section \<open>The manager and its lifecycle verbs\<close>

text \<open>
  The state of a manager object is the set of users it has installed and the shared
  directory of this plugin version. \<^verbatim>\<open>install_for_user\<close> and \<^verbatim>\<open>uninstall_for_user\<close> are
  methods of the base class. The file defines a minimal \<^verbatim>\<open>BaseLifecycleManager\<close> for the
  case that the host's class cannot be imported, and that class is the only one in this
  repository: its two methods, which keep \<open>active_users\<close> around the two hooks of the
  manager, are the ones embedded here, for the minimal class (\<open>datetime_is_class\<close> holds)
  and for a host whose class has the same two methods (it does not hold).
\<close>

record manager =
  active_users :: "string set"
  shared_path :: path

definition init_manager :: "env \<Rightarrow> path option \<Rightarrow> manager" where
  "init_manager env plugins_base_dir =
     \<lparr>active_users = {},
      shared_path =
        (case plugins_base_dir of
           Some d \<Rightarrow>
             d @ [''shared'', fstr (dsub plugin_data ''plugin_slug''),
                  ''v'' @ fstr (dsub plugin_data ''version'')]
         | None \<Rightarrow>
             butlast (butlast (file_parent env)) @
               [''backend'', ''plugins'', ''shared'', fstr (dsub plugin_data ''plugin_slug''),
                ''v'' @ fstr (dsub plugin_data ''version'')])\<rparr>"

definition perform_user_installation :: "env \<Rightarrow> string \<Rightarrow> world \<Rightarrow> pydict \<times> world" where
  "perform_user_installation env user_id w =
     (case create_database_records env user_id w of (db_result, w') \<Rightarrow>
        if \<not> succeeded db_result then (db_result, w')
        else
          ([(''success'', PBool True),
            (''plugin_id'', dsub db_result ''plugin_id''),
            (''plugin_slug'', dsub plugin_data ''plugin_slug''),
            (''plugin_name'', dsub plugin_data ''name''),
            (''modules_created'', dsub db_result ''modules_created'')], w'))"

definition perform_user_uninstallation :: "string \<Rightarrow> world \<Rightarrow> pydict \<times> world" where
  "perform_user_uninstallation user_id w =
     (case check_existing_plugin user_id w of (existing_check, w1) \<Rightarrow>
        if \<not> truthy (dsub existing_check ''exists'') then
          (failure ''Plugin not found for user'', w1)
        else
          (case delete_database_records user_id (dsub existing_check ''plugin_id'') w1 of
             (delete_result, w2) \<Rightarrow>
               if \<not> succeeded delete_result then (delete_result, w2)
               else
                 ([(''success'', PBool True),
                   (''plugin_id'', dsub existing_check ''plugin_id''),
                   (''deleted_modules'', dsub delete_result ''deleted_modules'')], w2)))"

definition install_for_user ::
  "env \<Rightarrow> manager \<Rightarrow> string \<Rightarrow> world \<Rightarrow> pydict \<times> manager \<times> world" where
  "install_for_user env self user_id w =
     (if user_id \<in> active_users self then
        (failure ''Plugin already installed for user'', self, w)
      else
        (case perform_user_installation env user_id w of (result, w') \<Rightarrow>
           (result,
            if succeeded result then self\<lparr>active_users := insert user_id (active_users self)\<rparr>
            else self,
            w')))"

definition uninstall_for_user :: "manager \<Rightarrow> string \<Rightarrow> world \<Rightarrow> pydict \<times> manager \<times> world" where
  "uninstall_for_user self user_id w =
     (if user_id \<notin> active_users self then
        (failure ''Plugin not installed for user'', self, w)
      else
        (case perform_user_uninstallation user_id w of (result, w') \<Rightarrow>
           (result,
            if succeeded result then self\<lparr>active_users := active_users self - {user_id}\<rparr>
            else self,
            w')))"

text \<open>
  \<^verbatim>\<open>install_plugin\<close>. After the existence check: the shared directory, the copy of the
  files, the installation through the base class, a second existence check, and the commit.
  A failure of the base-class installation rolls back; a failed copy and a failed
  verification return without commit and without rollback. \<open>install_plugin_files\<close> is the
  function from the creation of the shared directory on.
\<close>

definition install_plugin_files ::
  "env \<Rightarrow> manager \<Rightarrow> string \<Rightarrow> world \<Rightarrow> pydict \<times> manager \<times> world" where
  "install_plugin_files env self user_id w =
     (case mkdir_parents (shared_path self) (files w) of
        (Inl e, fs1) \<Rightarrow> (failure (str_exn e), self, rollback (w\<lparr>files := fs1\<rparr>))
      | (Inr u, fs1) \<Rightarrow>
          (case copy_plugin_files_impl env user_id (shared_path self) False fs1 of
             (copy_result, fs2) \<Rightarrow>
               if \<not> succeeded copy_result then (copy_result, self, w\<lparr>files := fs2\<rparr>)
               else
                 (case install_for_user env self user_id (w\<lparr>files := fs2\<rparr>) of
                    (result, self', w1) \<Rightarrow>
                      if truthy (dget result ''success'' PNone) then
                        (case check_existing_plugin user_id w1 of (verify_check, w2) \<Rightarrow>
                           if \<not> truthy (dsub verify_check ''exists'') then
                             (failure ''Installation verification failed'', self', w2)
                           else
                             (dict_update result
                                [(''shared_path'', PStr (path_str (shared_path self))),
                                 (''files_copied'', dget copy_result ''copied_files'' (PList []))],
                              self', commit w2))
                      else (result, self', rollback w1))))"

definition install_plugin :: "env \<Rightarrow> manager \<Rightarrow> string \<Rightarrow> world \<Rightarrow> pydict \<times> manager \<times> world" where
  "install_plugin env self user_id w =
     (case check_existing_plugin user_id w of (existing_check, w1) \<Rightarrow>
        if truthy (dsub existing_check ''exists'') then
          ([(''success'', PBool False),
            (''error'', PStr ''Plugin already installed for user''),
            (''plugin_id'', dsub existing_check ''plugin_id'')], self, w1)
        else install_plugin_files env self user_id w1)"

text \<open>\<^verbatim>\<open>delete_plugin\<close>: the commit follows a successful deletion only.\<close>

definition delete_plugin :: "string \<Rightarrow> world \<Rightarrow> pydict \<times> world" where
  "delete_plugin user_id w =
     (case check_existing_plugin user_id w of (existing_check, w1) \<Rightarrow>
        if \<not> truthy (dsub existing_check ''exists'') then
          (failure ''Plugin not found for user'', w1)
        else
          (case delete_database_records user_id (dsub existing_check ''plugin_id'') w1 of
             (delete_result, w2) \<Rightarrow>
               (delete_result, if succeeded delete_result then commit w2 else w2)))"

definition get_plugin_status :: "string \<Rightarrow> world \<Rightarrow> pydict \<times> world" where
  "get_plugin_status user_id w =
     (case check_existing_plugin user_id w of (existing_check, w1) \<Rightarrow>
        if truthy (dsub existing_check ''exists'') then
          ([(''installed'', PBool True),
            (''plugin_id'', dsub existing_check ''plugin_id''),
            (''plugin_slug'', dsub plugin_data ''plugin_slug''),
            (''plugin_name'', dsub plugin_data ''name''),
            (''version'', dsub plugin_data ''version'')], w1)
        else ([(''installed'', PBool False)], w1))"

text \<open>
  \<^verbatim>\<open>update_plugin\<close>: export, deletion of the current installation, installation through
  the manager of the new version, and import of the exported data with a commit. The
  manager of the new version is the only object the call changes.
\<close>

definition update_plugin ::
  "env \<Rightarrow> manager \<Rightarrow> string \<Rightarrow> world \<Rightarrow> pydict \<times> manager \<times> world" where
  "update_plugin env new_version_manager user_id w =
     (case export_user_data env user_id w of (export_result, w1) \<Rightarrow>
        (let user_data =
               (if succeeded export_result then dget export_result ''data'' (PDict [])
                else PDict [])
         in case delete_plugin user_id w1 of (delete_result, w2) \<Rightarrow>
              if \<not> succeeded delete_result then (delete_result, new_version_manager, w2)
              else
                (case install_plugin env new_version_manager user_id w2 of
                   (install_result, nm, w3) \<Rightarrow>
                     if \<not> succeeded install_result then (install_result, nm, w3)
                     else if truthy user_data then
                       (install_result, nm,
                        commit (import_user_data env user_id (sdict [(''data'', user_data)]) w3))
                     else (install_result, nm, w3))))"

section \<open>Auxiliary notions for the statements\<close>

text \<open>The error that the next statement raises, if any, and the session after it.\<close>

definition fault_of :: "world \<Rightarrow> string option" where
  "fault_of w = (case faults w of [] \<Rightarrow> None | f # fs \<Rightarrow> f)"

definition pop :: "world \<Rightarrow> world" where
  "pop w = w\<lparr>faults := tl (faults w)\<rparr>"

subsection \<open>A concrete environment and concrete stores\<close>

text \<open>
  A codec that knows a handful of JSON texts, a decoder that refuses a file whose first byte
  is \<open>0xFF\<close>, a clock that stands still, and identifiers that differ from call to call.
  \<open>demo_env\<close> is the module on its own, with the minimal base class and so with the name
  \<^verbatim>\<open>datetime\<close> bound to the class; \<open>host_env\<close> is the module inside a host that supplies the
  base class.
\<close>

definition known_json :: "(pyval \<times> string) list" where
  \<open>known_json =
     [(PDict [], ''{}''), (PList [], ''[]''),
      (no_messages, ''{"sends": [], "receives": []}''),
      (sdict [(''dark'', PBool True)], ''{"dark": true}''),
      (sdict [(''name'', PStr ''settings''), (''version'', PStr ''1.0.3'')],
       ''{"name": "settings", "version": "1.0.3"}''),
      (sdict [(''name'', PStr ''settings'')], ''{"name": "settings"}''),
      (PList [PStr ''name'', PStr ''version''], ''["name", "version"]''),
      (PInt 5, ''5'')]\<close>

definition demo_env :: env where
  "demo_env =
     \<lparr>datetime_is_class = True,
      loads = (\<lambda>s. case map_of (map (\<lambda>(v, t). (t, v)) known_json) s of
                       Some v \<Rightarrow> Inr v
                     | None \<Rightarrow>
                         Inl (Exn JSONDecodeError ''Expecting value: line 1 column 1 (char 0)'')),
      decode = (\<lambda>b. if b \<noteq> [] \<and> hd b = CHR 0xFF then
                         Inl (Exn UnicodeDecodeError
                                (quoted ''utf-8'' @
                                 '' codec can't decode byte 0xff in position 0: invalid start byte''))
                       else Inr b),
      dumps = (\<lambda>v. case map_of known_json v of Some t \<Rightarrow> t | None \<Rightarrow> ''null''),
      now_strftime = ''2025-03-06 12:00:00'',
      now_isoformat = ''2025-03-06T12:00:00'',
      uuid4 = (\<lambda>n. ''0a1b-4c2d-'' @ replicate n (CHR ''f'')),
      file_parent = [''repo'']\<rparr>"

definition host_env :: env where
  "host_env = demo_env\<lparr>datetime_is_class := False\<rparr>"

definition demo_manager :: manager where
  "demo_manager = init_manager demo_env (Some [''plugins''])"

definition empty_db :: database where
  "empty_db = \<lparr>plugin = [], module = [], settings_definitions = [], settings_instances = []\<rparr>"

text \<open>A plugin row of a user as the store may hold it, with the columns the manager reads.\<close>

definition stored_plugin :: "string \<Rightarrow> row" where
  "stored_plugin u =
     [(''id'', PStr (plugin_id_of u)), (''user_id'', PStr u),
      (''plugin_slug'', PStr ''BrainDriveSettings''),
      (''config_fields'', PNone), (''messages'', PNone), (''dependencies'', PNone)]"

definition masked_world :: world where
  "masked_world =
     \<lparr>committed = empty_db\<lparr>plugin := [stored_plugin ''u1'']\<rparr>,
      working = empty_db\<lparr>plugin := [stored_plugin ''u1'']\<rparr>,
      faults = [Some ''connection lost''], uuid_calls = 0, files = []\<rparr>"

text \<open>Installed directories: without the bundle, complete, with a manifest that is not
  JSON and an empty source directory, and with a regular file where the source directory
  should be.\<close>

definition manifest_text :: string where
  \<open>manifest_text = ''{"name": "settings", "version": "1.0.3"}''\<close>

definition plugin_dir :: path where
  "plugin_dir = [''plugins'', ''shared'', ''BrainDriveSettings'', ''v1.0.3'']"

definition files_without_bundle :: filesystem where
  "files_without_bundle =
     [(plugin_dir, Dir 4096),
      (plugin_dir @ [''package.json''], File True manifest_text)]"

definition files_complete :: filesystem where
  "files_complete =
     [(plugin_dir, Dir 4096),
      (plugin_dir @ [''package.json''], File True manifest_text),
      (plugin_dir @ [''dist''], Dir 4096),
      (plugin_dir @ [''dist'', ''remoteEntry.js''], File True ''bundle'')]"

definition files_broken :: filesystem where
  "files_broken =
     [(plugin_dir, Dir 4096),
      (plugin_dir @ [''package.json''], File True ''not json''),
      (plugin_dir @ [''src''], Dir 4096)]"

definition files_src_is_file :: filesystem where
  "files_src_is_file =
     [(plugin_dir, Dir 4096),
      (plugin_dir @ [''src''], File True ''x'')]"

text \<open>A session with nothing pending in which one user has the plugin row.\<close>

definition installed_world :: world where
  "installed_world =
     \<lparr>committed = empty_db\<lparr>plugin := [stored_plugin ''u1'']\<rparr>,
      working = empty_db\<lparr>plugin := [stored_plugin ''u1'']\<rparr>,
      faults = [], uuid_calls = 0, files = []\<rparr>"

text \<open>
  The rows of one installed user as the store may hold them, with the columns the manager
  reads: the three module rows (the first with a property the user has set), the three
  settings definitions and the user's three settings instances.
\<close>

definition stored_module :: "string \<Rightarrow> string \<Rightarrow> string \<Rightarrow> row" where
  \<open>stored_module u name props =
     [(''id'', PStr (u @ ''_'' @ name)), (''plugin_id'', PStr (plugin_id_of u)),
      (''name'', PStr name), (''user_id'', PStr u),
      (''props'', PStr props), (''config_fields'', PStr ''{}''),
      (''messages'', PStr ''{"sends": [], "receives": []}''), (''layout'', PStr ''{}'')]\<close>

definition stored_modules :: "string \<Rightarrow> row list" where
  \<open>stored_modules u =
     [stored_module u ''ComponentTheme'' ''{"dark": true}'',
      stored_module u ''ComponentGeneralSettings'' ''{}'',
      stored_module u ''ComponentOllamaServer'' ''{}'']\<close>

definition stored_definitions :: "row list" where
  "stored_definitions =
     [[(''id'', PStr ''theme_settings'')], [(''id'', PStr ''ollama_servers_settings'')],
      [(''id'', PStr ''general_settings'')]]"

definition stored_instance :: "string \<Rightarrow> string \<Rightarrow> string \<Rightarrow> row" where
  "stored_instance u i d =
     [(''id'', PStr i), (''definition_id'', PStr d), (''scope'', PStr ''user''),
      (''user_id'', PStr u)]"

definition stored_instances :: "string \<Rightarrow> row list" where
  "stored_instances u =
     [stored_instance u ''i1'' ''theme_settings'',
      stored_instance u ''i2'' ''ollama_servers_settings'',
      stored_instance u ''i3'' ''general_settings'']"

definition user_db :: database where
  "user_db =
     \<lparr>plugin = [stored_plugin ''u1''], module = stored_modules ''u1'',
      settings_definitions = stored_definitions, settings_instances = stored_instances ''u1''\<rparr>"

definition user_world :: world where
  "user_world =
     \<lparr>committed = user_db, working = user_db, faults = [], uuid_calls = 0, files = []\<rparr>"

definition module_of_plugin :: "string \<Rightarrow> pyval \<Rightarrow> row \<Rightarrow> bool" where
  "module_of_plugin u pid m \<longleftrightarrow> col m ''user_id'' = PStr u \<and> col m ''plugin_id'' = pid"

definition plugin_with_id :: "string \<Rightarrow> pyval \<Rightarrow> row \<Rightarrow> bool" where
  "plugin_with_id u pid p \<longleftrightarrow> col p ''user_id'' = PStr u \<and> col p ''id'' = pid"

text \<open>
  What the loop of \<^verbatim>\<open>_create_settings_instances\<close> finds missing, and the rows it then
  inserts, numbered by the identifiers drawn.
\<close>

definition instance_missing :: "string \<Rightarrow> row list \<Rightarrow> pydict \<Rightarrow> bool" where
  "instance_missing u tbl d =
     (case filter (instance_of u d) tbl of
        [] \<Rightarrow> True
      | [r] \<Rightarrow> \<not> truthy (col r ''id'')
      | r # r' # rs \<Rightarrow> False)"

fun new_instances :: "env \<Rightarrow> string \<Rightarrow> string \<Rightarrow> nat \<Rightarrow> pydict list \<Rightarrow> row list" where
  "new_instances env t u n [] = []"
| "new_instances env t u n (d # ds) =
     instance_record t u (filter (\<lambda>c. c \<noteq> CHR ''-'') (uuid4 env n)) d #
     new_instances env t u (Suc n) ds"

text \<open>A manager that already counts the user as installed.\<close>

definition active_manager :: manager where
  "active_manager = demo_manager\<lparr>active_users := {''u1''}\<rparr>"

text \<open>
  The session of the installed user in which the nineteenth statement raises: the first
  statement of the import inside an update.
\<close>

definition import_fails_world :: world where
  "import_fails_world =
     user_world\<lparr>faults :=
       [None, None, None, None, None, None, None, None, None, None, None, None, None, None,
        None, None, None, None, Some ''disk full'']\<rparr>"

text \<open>
  A store without any row, and a store in which the user has no plugin row but owns two
  settings instances: one of the theme definition and one of a definition of another
  plugin.
\<close>

definition fresh_world :: world where
  "fresh_world =
     \<lparr>committed = empty_db, working = empty_db, faults = [], uuid_calls = 0, files = []\<rparr>"

definition returning_db :: database where
  "returning_db =
     \<lparr>plugin = [], module = [], settings_definitions = stored_definitions,
      settings_instances =
        [stored_instance ''u1'' ''i1'' ''theme_settings'',
         stored_instance ''u1'' ''i7'' ''editor_settings'']\<rparr>"

definition returning_world :: world where
  "returning_world =
     \<lparr>committed = returning_db, working = returning_db, faults = [], uuid_calls = 0,
      files = []\<rparr>"

text \<open>A settings instance of the user with scope "user".\<close>

definition user_scope_instance :: "string \<Rightarrow> row \<Rightarrow> bool" where
  "user_scope_instance u i \<longleftrightarrow> col i ''user_id'' = PStr u \<and> col i ''scope'' = PStr ''user''"

text \<open>
  More installed directories: one whose manifest is the JSON array of the two field names,
  one whose manifest has a name only, one whose manifest is the number 5, one whose
  manifest is not JSON, one whose manifest may not be read, one whose manifest does not
  decode, and one with an empty bundle.
\<close>

definition files_with_manifest :: "node \<Rightarrow> filesystem" where
  "files_with_manifest n =
     [(plugin_dir, Dir 4096),
      (plugin_dir @ [''package.json''], n),
      (plugin_dir @ [''dist''], Dir 4096),
      (plugin_dir @ [''dist'', ''remoteEntry.js''], File True ''bundle'')]"

definition files_array_manifest :: filesystem where
  \<open>files_array_manifest = files_with_manifest (File True ''["name", "version"]'')\<close>

definition files_name_only :: filesystem where
  \<open>files_name_only = files_with_manifest (File True ''{"name": "settings"}'')\<close>

definition files_number_manifest :: filesystem where
  "files_number_manifest = files_with_manifest (File True ''5'')"

definition files_not_json :: filesystem where
  "files_not_json = files_with_manifest (File True ''not json'')"

definition files_unreadable :: filesystem where
  "files_unreadable = files_with_manifest (File False manifest_text)"

definition files_undecodable :: filesystem where
  "files_undecodable = files_with_manifest (File True (CHR 0xFF # manifest_text))"

definition files_empty_bundle :: filesystem where
  "files_empty_bundle =
     [(plugin_dir, Dir 4096),
      (plugin_dir @ [''package.json''], File True manifest_text),
      (plugin_dir @ [''dist''], Dir 4096),
      (plugin_dir @ [''dist'', ''remoteEntry.js''], File True [])]"

section \<open>Basic facts\<close>

lemma next_fault_eq: "next_fault w = (fault_of w, pop w)"
  by (cases w) (simp add: next_fault_def fault_of_def pop_def split: list.splits)

lemma pop_sel [simp]:
  "working (pop w) = working w" "committed (pop w) = committed w"
  "files (pop w) = files w" "uuid_calls (pop w) = uuid_calls w"
  "faults (pop w) = tl (faults w)"
  by (simp_all add: pop_def)

lemma no_fault [simp]: "faults w = [] \<Longrightarrow> fault_of w = None" "faults w = [] \<Longrightarrow> pop w = w"
  by (simp_all add: fault_of_def pop_def)

lemma fault_of_Cons [simp]: "faults w = f # fs \<Longrightarrow> fault_of w = f"
  by (simp add: fault_of_def)

lemma execute_select_eq:
  "execute_select t cols cond w =
     (case fault_of w of
        Some msg \<Rightarrow> Inl (Exn DatabaseError msg)
      | None \<Rightarrow> Inr (map (\<lambda>r. map (col r) cols) (filter cond (rows t (working w)))),
      pop w)"
  by (simp add: execute_select_def next_fault_eq split: option.splits)

lemma execute_insert_eq:
  "execute_insert t r w =
     (case fault_of w of
        Some msg \<Rightarrow> (Inl (Exn DatabaseError msg), pop w)
      | None \<Rightarrow> (Inr (), (pop w)\<lparr>working := put_rows t (rows t (working w) @ [r]) (working w)\<rparr>))"
  by (simp add: execute_insert_def next_fault_eq split: option.splits)

lemma execute_delete_eq:
  "execute_delete t cond w =
     (case fault_of w of
        Some msg \<Rightarrow> (Inl (Exn DatabaseError msg), pop w)
      | None \<Rightarrow>
          (Inr (length (filter cond (rows t (working w)))),
           (pop w)\<lparr>working := put_rows t (filter (\<lambda>r. \<not> cond r) (rows t (working w))) (working w)\<rparr>))"
  by (simp add: execute_delete_def next_fault_eq split: option.splits)

lemma execute_update_eq:
  "execute_update t sets cond w =
     (case fault_of w of
        Some msg \<Rightarrow> (Inl (Exn DatabaseError msg), pop w)
      | None \<Rightarrow>
          (Inr (),
           (pop w)\<lparr>working :=
                 put_rows t (map (\<lambda>r. if cond r then dict_update r sets else r) (rows t (working w)))
                   (working w)\<rparr>))"
  by (simp add: execute_update_def next_fault_eq split: option.splits)

lemma dsub_simps [simp]:
  "dsub [] k = PNone"
  "dsub ((k', v) # d) k = (if k' = k then v else dsub d k)"
  by (simp_all add: dsub_def dget_def)

lemma dget_simps [simp]:
  "dget [] k x = x"
  "dget ((k', v) # d) k x = (if k' = k then v else dget d k x)"
  by (simp_all add: dget_def)

lemma col_simps [simp]:
  "col [] k = PNone"
  "col ((k', v) # d) k = (if k' = k then v else col d k)"
  by (simp_all add: col_def)

lemma succeeded_simps [simp]:
  "succeeded ((''success'', v) # d) = truthy v"
  "\<not> succeeded (failure msg)"
  by (simp_all add: succeeded_def failure_def)

lemma plugin_slug [simp]: "dsub plugin_data ''plugin_slug'' = PStr ''BrainDriveSettings''"
  by (simp add: plugin_data_def)

lemma check_existing_plugin_eq:
  "check_existing_plugin u w =
     (case fault_of w of
        Some msg \<Rightarrow> [(''exists'', PBool False), (''error'', PStr msg)]
      | None \<Rightarrow>
          (case filter (plugin_of u) (plugin (working w)) of
             [] \<Rightarrow> [(''exists'', PBool False)]
           | r # rs \<Rightarrow> [(''exists'', PBool True), (''plugin_id'', col r ''id'')]),
      pop w)"
  by (simp add: check_existing_plugin_def execute_select_eq split: option.splits list.splits)

section \<open>An error of the existence query is read as absence\<close>

text \<open>
  Claim C9. When the query of \<^verbatim>\<open>_check_existing_plugin\<close> raises, the check answers
  \<open>exists: False\<close> with the error's text. Whatever rows the store holds for the user,
  \<^verbatim>\<open>delete_plugin\<close> then returns the failure "Plugin not found for user",
  \<^verbatim>\<open>get_plugin_status\<close> returns \<open>installed: False\<close>, and \<^verbatim>\<open>install_plugin\<close> goes on
  with the creation of the shared directory, exactly as for a user without a plugin row.
\<close>

theorem check_error_masked:
  assumes "faults w = Some msg # rest"
  shows "check_existing_plugin u w =
           ([(''exists'', PBool False), (''error'', PStr msg)], w\<lparr>faults := rest\<rparr>) \<and>
         delete_plugin u w = (failure ''Plugin not found for user'', w\<lparr>faults := rest\<rparr>) \<and>
         get_plugin_status u w = ([(''installed'', PBool False)], w\<lparr>faults := rest\<rparr>) \<and>
         install_plugin env self u w = install_plugin_files env self u (w\<lparr>faults := rest\<rparr>)"
proof -
  have p: "pop w = w\<lparr>faults := rest\<rparr>"
    using assms by (simp add: pop_def)
  have c: "check_existing_plugin u w =
             ([(''exists'', PBool False), (''error'', PStr msg)], w\<lparr>faults := rest\<rparr>)"
    using assms by (simp add: check_existing_plugin_eq p)
  show ?thesis
    by (simp add: c delete_plugin_def get_plugin_status_def install_plugin_def)
qed

theorem check_error_masked_witness:
  "faults masked_world = [Some ''connection lost''] \<and>
   filter (plugin_of ''u1'') (plugin (working masked_world)) = [stored_plugin ''u1''] \<and>
   fst (check_existing_plugin ''u1'' masked_world) =
     [(''exists'', PBool False), (''error'', PStr ''connection lost'')] \<and>
   fst (delete_plugin ''u1'' masked_world) = failure ''Plugin not found for user'' \<and>
   fst (get_plugin_status ''u1'' masked_world) = [(''installed'', PBool False)] \<and>
   install_plugin demo_env demo_manager ''u1'' masked_world =
     install_plugin_files demo_env demo_manager ''u1'' (masked_world\<lparr>faults := []\<rparr>)"
  using check_error_masked
          [of masked_world "''connection lost''" "[]" "''u1''" demo_env demo_manager]
  by (simp add: masked_world_def empty_db_def stored_plugin_def plugin_of_def)

section \<open>Installing twice\<close>

text \<open>
  Claim C2. When the store holds a plugin row of the user and the existence query does not
  raise, \<^verbatim>\<open>install_plugin\<close> returns the failure "Plugin already installed for user" with
  the id of that row, and changes nothing: the manager, the store as the transaction sees
  it, the committed store and the files are as before, so the plugin rows of the user are
  the same rows and no plugin, module or settings row is new.
\<close>

theorem reinstall_is_refused:
  assumes "filter (plugin_of u) (plugin (working w)) = r # rs"
    and "fault_of w = None"
  shows "install_plugin env self u w =
           ([(''success'', PBool False),
             (''error'', PStr ''Plugin already installed for user''),
             (''plugin_id'', col r ''id'')], self, pop w) \<and>
         working (pop w) = working w \<and> committed (pop w) = committed w \<and>
         files (pop w) = files w \<and>
         filter (plugin_of u) (plugin (working (pop w))) = r # rs"
  using assms by (simp add: install_plugin_def check_existing_plugin_eq)

theorem reinstall_is_refused_witness:
  "filter (plugin_of ''u1'') (plugin (working installed_world)) = [stored_plugin ''u1''] \<and>
   fault_of installed_world = None \<and>
   install_plugin demo_env demo_manager ''u1'' installed_world =
     ([(''success'', PBool False),
       (''error'', PStr ''Plugin already installed for user''),
       (''plugin_id'', PStr ''u1_BrainDriveSettings'')], demo_manager, installed_world) \<and>
   length (filter (plugin_of ''u1'') (plugin (working installed_world))) = 1"
  using reinstall_is_refused
          [of "''u1''" installed_world "stored_plugin ''u1''" "[]" demo_env demo_manager]
  by (simp add: installed_world_def empty_db_def stored_plugin_def plugin_of_def
        plugin_id_of_def)

lemma fault_of_upd [simp]:
  "fault_of (w\<lparr>working := x\<rparr>) = fault_of w"
  "fault_of (w\<lparr>committed := y\<rparr>) = fault_of w"
  "fault_of (w\<lparr>files := z\<rparr>) = fault_of w"
  "fault_of (w\<lparr>uuid_calls := n\<rparr>) = fault_of w"
  by (simp_all add: fault_of_def)

lemma pop_upd [simp]:
  "pop (w\<lparr>working := x\<rparr>) = (pop w)\<lparr>working := x\<rparr>"
  "pop (w\<lparr>committed := y\<rparr>) = (pop w)\<lparr>committed := y\<rparr>"
  "pop (w\<lparr>files := z\<rparr>) = (pop w)\<lparr>files := z\<rparr>"
  "pop (w\<lparr>uuid_calls := n\<rparr>) = (pop w)\<lparr>uuid_calls := n\<rparr>"
  by (simp_all add: pop_def)

lemma fault_of_commit [simp]: "fault_of (commit w) = fault_of w" "fault_of (rollback w) = fault_of w"
  by (simp_all add: commit_def rollback_def)

lemma pop_commit [simp]: "pop (commit w) = commit (pop w)" "pop (rollback w) = rollback (pop w)"
  by (simp_all add: commit_def rollback_def pop_def)

lemma commit_sel [simp]:
  "working (commit w) = working w" "committed (commit w) = working w"
  "files (commit w) = files w" "uuid_calls (commit w) = uuid_calls w" "faults (commit w) = faults w"
  by (simp_all add: commit_def)

lemma rollback_sel [simp]:
  "working (rollback w) = committed w" "committed (rollback w) = committed w"
  "files (rollback w) = files w" "uuid_calls (rollback w) = uuid_calls w"
  "faults (rollback w) = faults w"
  by (simp_all add: rollback_def)

lemma module_of_plugin_fun:
  "module_of_plugin u pid = (\<lambda>m. col m ''user_id'' = PStr u \<and> col m ''plugin_id'' = pid)"
  by (rule ext) (simp add: module_of_plugin_def)

lemma plugin_with_id_fun:
  "plugin_with_id u pid = (\<lambda>p. col p ''user_id'' = PStr u \<and> col p ''id'' = pid)"
  by (rule ext) (simp add: plugin_with_id_def)

lemma delete_database_records_eq:
  "delete_database_records u pid w =
     (case fault_of w of
        Some msg \<Rightarrow> (failure msg, pop w)
      | None \<Rightarrow>
          (case fault_of (pop w) of
             Some msg \<Rightarrow>
               (failure msg,
                (pop (pop w))\<lparr>working := (working w)
                   \<lparr>module := filter (\<lambda>m. \<not> module_of_plugin u pid m) (module (working w))\<rparr>\<rparr>)
           | None \<Rightarrow>
               ([(''success'', PBool True),
                 (''deleted_modules'',
                  PInt (int (length (filter (module_of_plugin u pid) (module (working w))))))],
                (pop (pop w))\<lparr>working := (working w)
                   \<lparr>module := filter (\<lambda>m. \<not> module_of_plugin u pid m) (module (working w)),
                    plugin := filter (\<lambda>p. \<not> plugin_with_id u pid p) (plugin (working w))\<rparr>\<rparr>)))"
  by (simp add: delete_database_records_def execute_delete_eq module_of_plugin_fun
        plugin_with_id_fun split: option.splits)

lemma delete_plugin_eq:
  "delete_plugin u w =
     (case fault_of w of
        Some msg \<Rightarrow> (failure ''Plugin not found for user'', pop w)
      | None \<Rightarrow>
          (case filter (plugin_of u) (plugin (working w)) of
             [] \<Rightarrow> (failure ''Plugin not found for user'', pop w)
           | r # rs \<Rightarrow>
               (case delete_database_records u (col r ''id'') (pop w) of
                  (delete_result, w2) \<Rightarrow>
                    (delete_result, if succeeded delete_result then commit w2 else w2))))"
  by (simp add: delete_plugin_def check_existing_plugin_eq split: option.splits list.splits)

lemma delete_plugin_frame:
  "settings_definitions (working (snd (delete_plugin u w))) = settings_definitions (working w) \<and>
   settings_instances (working (snd (delete_plugin u w))) = settings_instances (working w) \<and>
   files (snd (delete_plugin u w)) = files w \<and>
   uuid_calls (snd (delete_plugin u w)) = uuid_calls w"
  by (simp add: delete_plugin_eq delete_database_records_eq split: option.splits list.splits)

lemma delete_plugin_absent:
  "filter (plugin_of u) (plugin (working w)) = [] \<Longrightarrow>
   delete_plugin u w = (failure ''Plugin not found for user'', pop w)"
  by (simp add: delete_plugin_eq split: option.splits)

lemma delete_plugin_failed:
  "\<not> succeeded (fst (delete_plugin u w)) \<Longrightarrow> committed (snd (delete_plugin u w)) = committed w"
  by (simp add: delete_plugin_eq delete_database_records_eq split: option.splits list.splits)

lemma delete_plugin_succeeded:
  assumes "succeeded (fst (delete_plugin u w))"
  shows "\<exists>r rs. filter (plugin_of u) (plugin (working w)) = r # rs \<and>
           fst (delete_plugin u w) =
             [(''success'', PBool True),
              (''deleted_modules'',
               PInt (int (length (filter (module_of_plugin u (col r ''id'')) (module (working w))))))] \<and>
           working (snd (delete_plugin u w)) = (working w)
             \<lparr>module := filter (\<lambda>m. \<not> module_of_plugin u (col r ''id'') m) (module (working w)),
              plugin := filter (\<lambda>p. \<not> plugin_with_id u (col r ''id'') p) (plugin (working w))\<rparr> \<and>
           committed (snd (delete_plugin u w)) = working (snd (delete_plugin u w))"
  using assms
  by (auto simp: delete_plugin_eq delete_database_records_eq split: option.splits list.splits)

lemma delete_plugin_no_fault:
  "filter (plugin_of u) (plugin (working w)) \<noteq> [] \<Longrightarrow> faults w = [] \<Longrightarrow>
   succeeded (fst (delete_plugin u w))"
  by (simp add: delete_plugin_eq delete_database_records_eq split: list.splits)

lemma delete_plugin_second_fails:
  assumes "filter (plugin_of u) (plugin (working w)) = r # rs"
    and "faults w = None # None # Some msg # rest"
  shows "fst (delete_plugin u w) = failure msg \<and>
         plugin (working (snd (delete_plugin u w))) = plugin (working w) \<and>
         module (working (snd (delete_plugin u w))) =
           filter (\<lambda>m. \<not> module_of_plugin u (col r ''id'') m) (module (working w)) \<and>
         committed (snd (delete_plugin u w)) = committed w"
  using assms
  by (simp add: delete_plugin_eq delete_database_records_eq fault_of_def)


section \<open>Uninstalling\<close>

text \<open>
  Claim C4. \<^verbatim>\<open>delete_plugin\<close> never touches the settings definitions, the settings
  instances or the files. For a user without a plugin row it returns the failure "Plugin not
  found for user" and the store stays as it is. It commits only when it succeeds; a success
  means that the user had a plugin row, that the module rows of the user with that plugin
  id and the plugin row are gone, and that this state is committed. With a row and no
  database error it succeeds. The module rows go first: when the statement for the plugin
  row raises, the module rows are already deleted in the open transaction, the plugin rows
  are still there, and nothing is committed.
\<close>

theorem uninstall_effects:
  "settings_definitions (working (snd (delete_plugin u w))) = settings_definitions (working w) \<and>
   settings_instances (working (snd (delete_plugin u w))) = settings_instances (working w) \<and>
   files (snd (delete_plugin u w)) = files w \<and>
   (filter (plugin_of u) (plugin (working w)) = [] \<longrightarrow>
      fst (delete_plugin u w) = failure ''Plugin not found for user'' \<and>
      working (snd (delete_plugin u w)) = working w \<and>
      committed (snd (delete_plugin u w)) = committed w) \<and>
   (\<not> succeeded (fst (delete_plugin u w)) \<longrightarrow>
      committed (snd (delete_plugin u w)) = committed w) \<and>
   (succeeded (fst (delete_plugin u w)) \<longrightarrow>
      (\<exists>r rs. filter (plugin_of u) (plugin (working w)) = r # rs \<and>
         fst (delete_plugin u w) =
           [(''success'', PBool True),
            (''deleted_modules'',
             PInt (int (length (filter (module_of_plugin u (col r ''id'')) (module (working w))))))] \<and>
         working (snd (delete_plugin u w)) = (working w)
           \<lparr>module := filter (\<lambda>m. \<not> module_of_plugin u (col r ''id'') m) (module (working w)),
            plugin := filter (\<lambda>p. \<not> plugin_with_id u (col r ''id'') p) (plugin (working w))\<rparr> \<and>
         committed (snd (delete_plugin u w)) = working (snd (delete_plugin u w)))) \<and>
   (filter (plugin_of u) (plugin (working w)) \<noteq> [] \<and> faults w = [] \<longrightarrow>
      succeeded (fst (delete_plugin u w))) \<and>
   (\<forall>r rs msg rest.
      filter (plugin_of u) (plugin (working w)) = r # rs \<and>
      faults w = None # None # Some msg # rest \<longrightarrow>
        fst (delete_plugin u w) = failure msg \<and>
        plugin (working (snd (delete_plugin u w))) = plugin (working w) \<and>
        module (working (snd (delete_plugin u w))) =
          filter (\<lambda>m. \<not> module_of_plugin u (col r ''id'') m) (module (working w)) \<and>
        committed (snd (delete_plugin u w)) = committed w)"
  using delete_plugin_frame [of u w] delete_plugin_absent [of u w] delete_plugin_failed [of u w]
    delete_plugin_succeeded [of u w] delete_plugin_no_fault [of u w]
    delete_plugin_second_fails [of u w]
  by (intro conjI impI allI) (simp_all del: filter.simps)

lemma user_world_rows:
  "filter (plugin_of ''u1'') (plugin (working user_world)) = [stored_plugin ''u1'']"
  "filter (plugin_of ''u2'') (plugin (working user_world)) = []"
  by (simp_all add: user_world_def user_db_def stored_plugin_def plugin_of_def)

lemma stored_modules_of_plugin:
  "filter (\<lambda>m. \<not> module_of_plugin ''u1'' (col (stored_plugin ''u1'') ''id'') m) (stored_modules ''u1'') = []"
  "filter (module_of_plugin ''u1'' (col (stored_plugin ''u1'') ''id'')) (stored_modules ''u1'') =
     stored_modules ''u1''"
  by (simp_all add: stored_modules_def stored_module_def stored_plugin_def module_of_plugin_def)

theorem uninstall_effects_witness:
  "filter (plugin_of ''u1'') (plugin (working user_world)) \<noteq> [] \<and>
   faults user_world = [] \<and>
   succeeded (fst (delete_plugin ''u1'' user_world)) \<and>
   module (working (snd (delete_plugin ''u1'' user_world))) = [] \<and>
   plugin (working (snd (delete_plugin ''u1'' user_world))) = [] \<and>
   committed (snd (delete_plugin ''u1'' user_world)) =
     working (snd (delete_plugin ''u1'' user_world)) \<and>
   settings_instances (working (snd (delete_plugin ''u1'' user_world))) = stored_instances ''u1'' \<and>
   filter (plugin_of ''u2'') (plugin (working user_world)) = [] \<and>
   fst (delete_plugin ''u2'' user_world) = failure ''Plugin not found for user'' \<and>
   working (snd (delete_plugin ''u2'' user_world)) = working user_world"
proof -
  note t1 = uninstall_effects [of "''u1''" user_world]
  note t2 = uninstall_effects [of "''u2''" user_world]
  have a: "filter (plugin_of ''u1'') (plugin (working user_world)) \<noteq> []"
    by (simp add: user_world_rows)
  have b: "faults user_world = []"
    by (simp add: user_world_def)
  have c: "succeeded (fst (delete_plugin ''u1'' user_world))"
    using t1 a b by blast
  obtain r rs where r: "filter (plugin_of ''u1'') (plugin (working user_world)) = r # rs"
    and w: "working (snd (delete_plugin ''u1'' user_world)) = (working user_world)
           \<lparr>module := filter (\<lambda>m. \<not> module_of_plugin ''u1'' (col r ''id'') m)
                         (module (working user_world)),
            plugin := filter (\<lambda>p. \<not> plugin_with_id ''u1'' (col r ''id'') p)
                         (plugin (working user_world))\<rparr>"
    and k: "committed (snd (delete_plugin ''u1'' user_world)) =
            working (snd (delete_plugin ''u1'' user_world))"
    using t1 c by blast
  have r': "r = stored_plugin ''u1''"
    using r by (simp add: user_world_rows)
  have m: "module (working (snd (delete_plugin ''u1'' user_world))) = []"
    by (simp add: w r') (simp add: user_world_def user_db_def stored_modules_of_plugin)
  have p: "plugin (working (snd (delete_plugin ''u1'' user_world))) = []"
    by (simp add: w r')
       (simp add: user_world_def user_db_def stored_plugin_def plugin_with_id_def)
  have i: "settings_instances (working (snd (delete_plugin ''u1'' user_world))) =
           stored_instances ''u1''"
    using t1 by (simp add: user_world_def user_db_def)
  have e: "filter (plugin_of ''u2'') (plugin (working user_world)) = []"
    by (simp add: user_world_rows)
  have f: "fst (delete_plugin ''u2'' user_world) = failure ''Plugin not found for user'' \<and>
           working (snd (delete_plugin ''u2'' user_world)) = working user_world"
    using t2 e by blast
  show ?thesis
    using a b c m p k i e f by blast
qed

section \<open>Columns of the rows that the manager writes\<close>

lemma definition_record_col [simp]:
  "col (definition_record t d) ''id'' = dsub d ''id''"
  by (simp add: definition_record_def)

lemma instance_record_col [simp]:
  "col (instance_record t u i d) ''id'' = PStr i"
  "col (instance_record t u i d) ''definition_id'' = dsub d ''definition_id''"
  "col (instance_record t u i d) ''scope'' = dsub d ''scope''"
  "col (instance_record t u i d) ''user_id'' = PStr u"
  by (simp_all add: instance_record_def)

lemma plugin_slug_get [simp]:
  "dget plugin_data ''plugin_slug'' PNone = PStr ''BrainDriveSettings''"
  by (simp add: plugin_data_def)

lemma plugin_record_col [simp]:
  "col (plugin_record env t u pid) ''id'' = PStr pid"
  "col (plugin_record env t u pid) ''user_id'' = PStr u"
  "col (plugin_record env t u pid) ''plugin_slug'' = PStr ''BrainDriveSettings''"
  "col (plugin_record env t u pid) ''config_fields'' = PNone"
  "col (plugin_record env t u pid) ''messages'' = PNone"
  "col (plugin_record env t u pid) ''dependencies'' = PNone"
  by (simp_all add: plugin_record_def)

lemma module_record_col [simp]:
  "col (module_record env t u pid md) ''id'' = PStr (u @ ''_'' @ fstr (dsub md ''name''))"
  "col (module_record env t u pid md) ''plugin_id'' = PStr pid"
  "col (module_record env t u pid md) ''name'' = dsub md ''name''"
  "col (module_record env t u pid md) ''user_id'' = PStr u"
  "col (module_record env t u pid md) ''props'' = json_dumps env (dget md ''props'' (PDict []))"
  "col (module_record env t u pid md) ''config_fields'' =
     json_dumps env (dget md ''config_fields'' (PDict []))"
  "col (module_record env t u pid md) ''messages'' = json_dumps env (dget md ''messages'' (PDict []))"
  "col (module_record env t u pid md) ''layout'' = json_dumps env (dget md ''layout'' (PDict []))"
  by (simp_all add: module_record_def)

lemma descriptor_ids [simp]:
  "dsub theme_settings_definition ''id'' = PStr ''theme_settings''"
  "dsub ollama_servers_settings_definition ''id'' = PStr ''ollama_servers_settings''"
  "dsub general_settings_definition ''id'' = PStr ''general_settings''"
  "dsub theme_settings_instance ''definition_id'' = PStr ''theme_settings''"
  "dsub ollama_servers_settings_instance ''definition_id'' = PStr ''ollama_servers_settings''"
  "dsub general_settings_instance ''definition_id'' = PStr ''general_settings''"
  "dsub theme_settings_instance ''scope'' = PStr ''user''"
  "dsub ollama_servers_settings_instance ''scope'' = PStr ''user''"
  "dsub general_settings_instance ''scope'' = PStr ''user''"
  "dsub theme_settings_instance ''name'' = PStr ''Theme Settings''"
  "dsub ollama_servers_settings_instance ''name'' = PStr ''Ollama Servers Settings''"
  "dsub general_settings_instance ''name'' = PStr ''General Settings''"
  "dsub theme_module ''name'' = PStr ''ComponentTheme''"
  "dsub general_settings_module ''name'' = PStr ''ComponentGeneralSettings''"
  "dsub ollama_server_module ''name'' = PStr ''ComponentOllamaServer''"
  by (simp_all add: theme_settings_definition_def ollama_servers_settings_definition_def
        general_settings_definition_def theme_settings_instance_def
        ollama_servers_settings_instance_def general_settings_instance_def
        theme_module_def general_settings_module_def ollama_server_module_def)

lemma plugin_id_of_eq: "plugin_id_of u = u @ ''_BrainDriveSettings''"
  by (simp add: plugin_id_of_def)

section \<open>What the steps of an installation leave alone\<close>

lemma scalar_select_id:
  "scalar_one_or_none (map (\<lambda>r. map (col r) [''id'']) rs) =
     (case rs of
        [] \<Rightarrow> Inr PNone
      | [r] \<Rightarrow> Inr (col r ''id'')
      | r # r' # rs' \<Rightarrow>
          Inl (Exn MultipleResultsFound ''Multiple rows were found when one or none was required''))"
  by (simp split: list.splits)

lemma ensure_loop_frame:
  "plugin (working (snd (ensure_settings_definitions_loop env ds w))) = plugin (working w) \<and>
   module (working (snd (ensure_settings_definitions_loop env ds w))) = module (working w) \<and>
   settings_instances (working (snd (ensure_settings_definitions_loop env ds w))) =
     settings_instances (working w) \<and>
   committed (snd (ensure_settings_definitions_loop env ds w)) = committed w \<and>
   files (snd (ensure_settings_definitions_loop env ds w)) = files w \<and>
   uuid_calls (snd (ensure_settings_definitions_loop env ds w)) = uuid_calls w"
proof (induction ds arbitrary: w)
  case Nil
  then show ?case by simp
next
  case (Cons d ds)
  show ?case
    by (simp add: execute_select_eq execute_insert_eq Cons.IH
        split: option.splits sum.splits)
qed

lemma now_formatted_eq:
  "now_formatted env =
     (if datetime_is_class env then Inl datetime_attribute_error else Inr (now_strftime env))"
  by (simp add: now_formatted_def)

lemma snd_case_result [simp]:
  "snd (case p of (Inr x, w') \<Rightarrow> (f x, w') | (Inl e, w') \<Rightarrow> (g e, w')) = snd p"
  "snd (case p of (Inl e, w') \<Rightarrow> (g e, w') | (Inr x, w') \<Rightarrow> (f x, w')) = snd p"
  by (cases p; cases "fst p"; simp)+

lemma ensure_frame:
  "plugin (working (snd (ensure_settings_definitions env w))) = plugin (working w) \<and>
   module (working (snd (ensure_settings_definitions env w))) = module (working w) \<and>
   settings_instances (working (snd (ensure_settings_definitions env w))) =
     settings_instances (working w) \<and>
   committed (snd (ensure_settings_definitions env w)) = committed w \<and>
   files (snd (ensure_settings_definitions env w)) = files w \<and>
   uuid_calls (snd (ensure_settings_definitions env w)) = uuid_calls w"
  using ensure_loop_frame [of env PLUGIN_SETTINGS_DEFINITIONS w]
  by (simp add: ensure_settings_definitions_def)

lemma instances_loop_frame:
  "plugin (working (snd (create_settings_instances_loop env t u ds acc w))) = plugin (working w) \<and>
   module (working (snd (create_settings_instances_loop env t u ds acc w))) = module (working w) \<and>
   settings_definitions (working (snd (create_settings_instances_loop env t u ds acc w))) =
     settings_definitions (working w) \<and>
   committed (snd (create_settings_instances_loop env t u ds acc w)) = committed w \<and>
   files (snd (create_settings_instances_loop env t u ds acc w)) = files w"
proof (induction ds arbitrary: acc w)
  case Nil
  then show ?case by simp
next
  case (Cons d ds)
  show ?case
    by (simp add: execute_select_eq execute_insert_eq Cons.IH Let_def
        split: option.splits sum.splits)
qed

lemma instances_frame:
  "plugin (working (snd (create_settings_instances env u w))) = plugin (working w) \<and>
   module (working (snd (create_settings_instances env u w))) = module (working w) \<and>
   settings_definitions (working (snd (create_settings_instances env u w))) =
     settings_definitions (working w) \<and>
   committed (snd (create_settings_instances env u w)) = committed w \<and>
   files (snd (create_settings_instances env u w)) = files w"
  using instances_loop_frame [of env "now_strftime env" u settings_instances_data "[]" w]
  by (simp add: create_settings_instances_def now_formatted_def)

lemma modules_loop_frame:
  "plugin (working (snd (create_modules_loop env t u pid mds acc w))) = plugin (working w) \<and>
   settings_definitions (working (snd (create_modules_loop env t u pid mds acc w))) =
     settings_definitions (working w) \<and>
   settings_instances (working (snd (create_modules_loop env t u pid mds acc w))) =
     settings_instances (working w) \<and>
   committed (snd (create_modules_loop env t u pid mds acc w)) = committed w \<and>
   files (snd (create_modules_loop env t u pid mds acc w)) = files w \<and>
   uuid_calls (snd (create_modules_loop env t u pid mds acc w)) = uuid_calls w"
proof (induction mds arbitrary: acc w)
  case Nil
  then show ?case by simp
next
  case (Cons d ds)
  show ?case
    by (simp add: execute_insert_eq Cons.IH split: option.splits)
qed

lemma modules_loop_Inr:
  "create_modules_loop env t u pid mds acc w = (Inr ms, w') \<Longrightarrow>
   ms = acc @ map (\<lambda>md. dsub md ''name'') mds \<and>
   module (working w') = module (working w) @ map (module_record env t u pid) mds"
proof (induction mds arbitrary: acc w)
  case Nil
  then show ?case by simp
next
  case (Cons d ds)
  from Cons.prems show ?case
    by (auto simp: execute_insert_eq split: option.splits dest!: Cons.IH)
qed

section \<open>What a successful installation has written\<close>

lemma instance_missing_append:
  "dsub d' ''definition_id'' \<noteq> dsub d ''definition_id'' \<Longrightarrow>
   instance_missing u (tbl @ [instance_record t u i d]) d' = instance_missing u tbl d'"
  by (simp add: instance_missing_def instance_of_def)

lemma instances_loop_step:
  assumes "create_settings_instances_loop env t u (d # ds) acc w = (Inr created, w')"
  shows "if instance_missing u (settings_instances (working w)) d then
           create_settings_instances_loop env t u ds (acc @ [dsub d ''name''])
             (pop (pop w)
                \<lparr>uuid_calls := Suc (uuid_calls w),
                 working := (working w)
                   \<lparr>settings_instances := settings_instances (working w) @
                      [instance_record t u
                         (filter (\<lambda>c. c \<noteq> CHR ''-'') (uuid4 env (uuid_calls w))) d]\<rparr>\<rparr>) =
             (Inr created, w')
         else create_settings_instances_loop env t u ds acc (pop w) = (Inr created, w')"
  using assms
  by (auto simp: execute_select_eq execute_insert_eq scalar_select_id instance_missing_def Let_def
      split: option.splits list.splits if_splits)

lemma instances_loop_Inr:
  assumes "create_settings_instances_loop env t u ds acc w = (Inr created, w')"
    and "distinct (map (\<lambda>d. dsub d ''definition_id'') ds)"
  shows "settings_instances (working w') =
           settings_instances (working w) @
           new_instances env t u (uuid_calls w)
             (filter (instance_missing u (settings_instances (working w))) ds) \<and>
         created =
           acc @ map (\<lambda>d. dsub d ''name'')
                   (filter (instance_missing u (settings_instances (working w))) ds)"
  using assms
proof (induction ds arbitrary: acc w)
  case Nil
  then show ?case by simp
next
  case (Cons d ds)
  let ?tbl = "settings_instances (working w)"
  let ?row = "instance_record t u (filter (\<lambda>c. c \<noteq> CHR ''-'') (uuid4 env (uuid_calls w))) d"
  have dist: "distinct (map (\<lambda>d. dsub d ''definition_id'') ds)"
    using Cons.prems(2) by simp
  have other: "dsub d' ''definition_id'' \<noteq> dsub d ''definition_id''" if "d' \<in> set ds" for d'
    using Cons.prems(2) that by (auto simp: image_iff)
  show ?case
  proof (cases "instance_missing u ?tbl d")
    case True
    with instances_loop_step [OF Cons.prems(1)]
    have run: "create_settings_instances_loop env t u ds (acc @ [dsub d ''name''])
             (pop (pop w)
                \<lparr>uuid_calls := Suc (uuid_calls w),
                 working := (working w)\<lparr>settings_instances := ?tbl @ [?row]\<rparr>\<rparr>) =
             (Inr created, w')"
      by simp
    have same: "filter (instance_missing u (?tbl @ [?row])) ds = filter (instance_missing u ?tbl) ds"
      by (rule filter_cong [OF refl]) (simp add: instance_missing_append other)
    from Cons.IH [OF run dist] show ?thesis
      by (simp add: same True)
  next
    case False
    with instances_loop_step [OF Cons.prems(1)]
    have run: "create_settings_instances_loop env t u ds acc (pop w) = (Inr created, w')"
      by simp
    from Cons.IH [OF run dist] show ?thesis
      by (simp add: False)
  qed
qed

lemma settings_instances_data_distinct:
  "distinct (map (\<lambda>d. dsub d ''definition_id'') settings_instances_data)"
  by (simp add: settings_instances_data_def)

lemma check_frame:
  "check_existing_plugin u w = (r, w') \<Longrightarrow> w' = pop w"
  by (auto simp: check_existing_plugin_eq)

lemma ensure_frameD:
  assumes "ensure_settings_definitions env w = (r, w')"
  shows "plugin (working w') = plugin (working w)" "module (working w') = module (working w)"
    "settings_instances (working w') = settings_instances (working w)"
    "committed w' = committed w" "files w' = files w" "uuid_calls w' = uuid_calls w"
  using ensure_frame [of env w] assms by simp_all

lemma instances_frameD:
  assumes "create_settings_instances env u w = (r, w')"
  shows "plugin (working w') = plugin (working w)" "module (working w') = module (working w)"
    "settings_definitions (working w') = settings_definitions (working w)"
    "committed w' = committed w" "files w' = files w"
  using instances_frame [of env u w] assms by simp_all

lemma modules_loop_frameD:
  assumes "create_modules_loop env t u pid mds acc w = (r, w')"
  shows "plugin (working w') = plugin (working w)"
    "settings_definitions (working w') = settings_definitions (working w)"
    "settings_instances (working w') = settings_instances (working w)"
    "committed w' = committed w" "files w' = files w" "uuid_calls w' = uuid_calls w"
  using modules_loop_frame [of env t u pid mds acc w] assms by simp_all

lemma create_settings_instances_succeeded:
  assumes "create_settings_instances env u w = (r, w')" "succeeded r"
  shows "settings_instances (working w') =
           settings_instances (working w) @
           new_instances env (now_strftime env) u (uuid_calls w)
             (filter (instance_missing u (settings_instances (working w))) settings_instances_data)"
proof -
  obtain created where "create_settings_instances_loop env (now_strftime env) u settings_instances_data [] w =
      (Inr created, w')"
    using assms
    by (auto simp: create_settings_instances_def now_formatted_def
        split: prod.splits sum.splits if_splits)
  from instances_loop_Inr [OF this settings_instances_data_distinct] show ?thesis by simp
qed

lemma create_settings_instances_class:
  "datetime_is_class env \<Longrightarrow>
   create_settings_instances env u w = (failure (str_exn datetime_attribute_error), w)"
  by (simp add: create_settings_instances_def now_formatted_def)

lemma create_database_records_unfold:
  "create_database_records env u w =
     (if fault_of w = None \<and> filter (plugin_of u) (plugin (working w)) \<noteq> [] then
        (failure ''Plugin already exists for user'', pop w)
      else if \<not> succeeded (fst (ensure_settings_definitions env (pop w))) then
        ensure_settings_definitions env (pop w)
      else if \<not> succeeded
           (fst (create_settings_instances env u (snd (ensure_settings_definitions env (pop w)))))
      then create_settings_instances env u (snd (ensure_settings_definitions env (pop w)))
      else
        (let w3 = snd (create_settings_instances env u
                         (snd (ensure_settings_definitions env (pop w))));
             r3 = fst (create_settings_instances env u
                         (snd (ensure_settings_definitions env (pop w))))
         in case fault_of w3 of
              Some msg \<Rightarrow> (failure msg, pop w3)
            | None \<Rightarrow>
                (let p5 = create_modules_loop env (now_strftime env) u (plugin_id_of u) module_data []
                           ((pop w3)\<lparr>working := (working w3)
                              \<lparr>plugin := plugin (working w3) @
                                 [plugin_record env (now_strftime env) u (plugin_id_of u)]\<rparr>\<rparr>)
                 in (case fst p5 of
                       Inl e \<Rightarrow> failure (str_exn e)
                     | Inr modules_created \<Rightarrow>
                         [(''success'', PBool True),
                          (''plugin_id'', PStr (plugin_id_of u)),
                          (''modules_created'', PList modules_created),
                          (''settings_created'', dsub r3 ''created_instances'')],
                     snd p5))))"
proof (cases "datetime_is_class env")
  case True
  then show ?thesis
    by (simp add: create_database_records_def check_existing_plugin_eq
          create_settings_instances_class Let_def
        split: prod.splits option.splits list.splits)
next
  case False
  then show ?thesis
    by (simp add: create_database_records_def check_existing_plugin_eq execute_insert_eq Let_def
          now_formatted_def
        split: prod.splits option.splits sum.splits list.splits)
qed

lemma create_database_records_frame:
  "committed (snd (create_database_records env u w)) = committed w \<and>
   files (snd (create_database_records env u w)) = files w"
  by (simp add: create_database_records_unfold Let_def ensure_frame instances_frame
        modules_loop_frame split: option.splits)


lemma module_names [simp]:
  "map (\<lambda>md. dsub md ''name'') module_data =
     [PStr ''ComponentTheme'', PStr ''ComponentGeneralSettings'', PStr ''ComponentOllamaServer'']"
  by (simp add: module_data_def)

lemma create_database_records_succeeded:
  assumes "succeeded (fst (create_database_records env u w))"
  shows "plugin (working (snd (create_database_records env u w))) =
           plugin (working w) @ [plugin_record env (now_strftime env) u (plugin_id_of u)]"
    and "module (working (snd (create_database_records env u w))) =
           module (working w) @ map (module_record env (now_strftime env) u (plugin_id_of u)) module_data"
    and "settings_instances (working (snd (create_database_records env u w))) =
           settings_instances (working w) @
           new_instances env (now_strftime env) u (uuid_calls w)
             (filter (instance_missing u (settings_instances (working w))) settings_instances_data)"
    and "dsub (fst (create_database_records env u w)) ''plugin_id'' = PStr (plugin_id_of u)"
    and "dsub (fst (create_database_records env u w)) ''modules_created'' =
           PList [PStr ''ComponentTheme'', PStr ''ComponentGeneralSettings'',
                  PStr ''ComponentOllamaServer'']"
proof -
  let ?p2 = "ensure_settings_definitions env (pop w)"
  let ?p3 = "create_settings_instances env u (snd ?p2)"
  let ?w3 = "snd ?p3"
  let ?w4 = "(pop ?w3)\<lparr>working := (working ?w3)
               \<lparr>plugin := plugin (working ?w3) @ [plugin_record env (now_strftime env) u (plugin_id_of u)]\<rparr>\<rparr>"
  let ?p5 = "create_modules_loop env (now_strftime env) u (plugin_id_of u) module_data [] ?w4"
  from assms obtain ms where s3: "succeeded (fst ?p3)" and f3: "fault_of ?w3 = None"
    and p5: "fst ?p5 = Inr ms"
    and res: "create_database_records env u w =
                ([(''success'', PBool True),
                  (''plugin_id'', PStr (plugin_id_of u)),
                  (''modules_created'', PList ms),
                  (''settings_created'', dsub (fst ?p3) ''created_instances'')], snd ?p5)"
    by (auto simp: create_database_records_unfold Let_def
        split: if_splits option.splits sum.splits)
  have p5': "?p5 = (Inr ms, snd ?p5)"
    using p5 by (simp add: prod_eq_iff)
  have ms: "ms = map (\<lambda>md. dsub md ''name'') module_data"
    and m5: "module (working (snd ?p5)) =
               module (working ?w4) @ map (module_record env (now_strftime env) u (plugin_id_of u)) module_data"
    using modules_loop_Inr [OF p5'] by simp_all
  have f5: "plugin (working (snd ?p5)) = plugin (working ?w4)"
    "settings_instances (working (snd ?p5)) = settings_instances (working ?w4)"
    using modules_loop_frame [of env "now_strftime env" u "plugin_id_of u" module_data "[]" ?w4] by simp_all
  have w4: "plugin (working ?w4) = plugin (working ?w3) @ [plugin_record env (now_strftime env) u (plugin_id_of u)]"
    "module (working ?w4) = module (working ?w3)"
    "settings_instances (working ?w4) = settings_instances (working ?w3)"
    by simp_all
  have w3: "plugin (working ?w3) = plugin (working w)" "module (working ?w3) = module (working w)"
    by (simp_all add: instances_frame ensure_frame)
  have i3: "settings_instances (working ?w3) =
              settings_instances (working w) @
              new_instances env (now_strftime env) u (uuid_calls w)
                (filter (instance_missing u (settings_instances (working w)))
                   settings_instances_data)"
    using create_settings_instances_succeeded [of env u "snd ?p2" "fst ?p3" ?w3] s3
    by (simp add: ensure_frame)
  have sn: "snd (create_database_records env u w) = snd ?p5"
    by (simp only: res snd_conv)
  have "plugin (working (snd (create_database_records env u w))) = plugin (working (snd ?p5))"
    by (simp only: sn)
  also have "\<dots> = plugin (working ?w4)"
    by (rule f5(1))
  also have "\<dots> = plugin (working ?w3) @ [plugin_record env (now_strftime env) u (plugin_id_of u)]"
    by (rule w4(1))
  also have "\<dots> = plugin (working w) @ [plugin_record env (now_strftime env) u (plugin_id_of u)]"
    by (simp only: w3)
  finally show "plugin (working (snd (create_database_records env u w))) =
          plugin (working w) @ [plugin_record env (now_strftime env) u (plugin_id_of u)]" .
  have "module (working (snd (create_database_records env u w))) = module (working (snd ?p5))"
    by (simp only: sn)
  also have "\<dots> = module (working ?w4) @ map (module_record env (now_strftime env) u (plugin_id_of u)) module_data"
    by (rule m5)
  also have "\<dots> = module (working ?w3) @ map (module_record env (now_strftime env) u (plugin_id_of u)) module_data"
    by (simp only: w4(2))
  also have "\<dots> = module (working w) @ map (module_record env (now_strftime env) u (plugin_id_of u)) module_data"
    by (simp only: w3)
  finally show "module (working (snd (create_database_records env u w))) =
          module (working w) @ map (module_record env (now_strftime env) u (plugin_id_of u)) module_data" .
  have "settings_instances (working (snd (create_database_records env u w))) =
          settings_instances (working (snd ?p5))"
    by (simp only: sn)
  also have "\<dots> = settings_instances (working ?w4)"
    by (rule f5(2))
  also have "\<dots> = settings_instances (working ?w3)"
    by (rule w4(3))
  also note i3
  finally show "settings_instances (working (snd (create_database_records env u w))) =
           settings_instances (working w) @
           new_instances env (now_strftime env) u (uuid_calls w)
             (filter (instance_missing u (settings_instances (working w))) settings_instances_data)" .
  show "dsub (fst (create_database_records env u w)) ''plugin_id'' = PStr (plugin_id_of u)"
    by (simp add: res)
  show "dsub (fst (create_database_records env u w)) ''modules_created'' =
           PList [PStr ''ComponentTheme'', PStr ''ComponentGeneralSettings'',
                  PStr ''ComponentOllamaServer'']"
    by (simp add: res ms)
qed

lemma perform_user_installation_unfold:
  "perform_user_installation env u w =
     (if \<not> succeeded (fst (create_database_records env u w)) then
        create_database_records env u w
      else
        ([(''success'', PBool True),
          (''plugin_id'', dsub (fst (create_database_records env u w)) ''plugin_id''),
          (''plugin_slug'', dsub plugin_data ''plugin_slug''),
          (''plugin_name'', dsub plugin_data ''name''),
          (''modules_created'', dsub (fst (create_database_records env u w)) ''modules_created'')],
         snd (create_database_records env u w)))"
  by (simp add: perform_user_installation_def split: prod.splits)

lemma perform_user_installation_snd [simp]:
  "snd (perform_user_installation env u w) = snd (create_database_records env u w)"
  by (simp add: perform_user_installation_unfold)

lemma perform_user_installation_succeeded [simp]:
  "succeeded (fst (perform_user_installation env u w)) =
     succeeded (fst (create_database_records env u w))"
  by (simp add: perform_user_installation_unfold)

lemma install_for_user_unfold:
  "install_for_user env self u w =
     (if u \<in> active_users self then (failure ''Plugin already installed for user'', self, w)
      else
        (fst (perform_user_installation env u w),
         if succeeded (fst (create_database_records env u w))
         then self\<lparr>active_users := insert u (active_users self)\<rparr> else self,
         snd (create_database_records env u w)))"
  by (simp add: install_for_user_def case_prod_beta)

lemma install_for_user_frame:
  "committed (snd (snd (install_for_user env self u w))) = committed w \<and>
   files (snd (snd (install_for_user env self u w))) = files w"
  by (simp add: install_for_user_unfold create_database_records_frame)

lemma install_for_user_succeeded:
  assumes "succeeded (fst (install_for_user env self u w))"
  shows "u \<notin> active_users self"
    and "succeeded (fst (create_database_records env u w))"
    and "fst (snd (install_for_user env self u w)) =
           self\<lparr>active_users := insert u (active_users self)\<rparr>"
    and "snd (snd (install_for_user env self u w)) = snd (create_database_records env u w)"
    and "fst (install_for_user env self u w) =
          [(''success'', PBool True),
           (''plugin_id'', PStr (plugin_id_of u)),
           (''plugin_slug'', PStr ''BrainDriveSettings''),
           (''plugin_name'', dsub plugin_data ''name''),
           (''modules_created'',
            PList [PStr ''ComponentTheme'', PStr ''ComponentGeneralSettings'',
                   PStr ''ComponentOllamaServer''])]"
proof -
  from assms show a: "u \<notin> active_users self"
    by (auto simp: install_for_user_unfold split: if_splits)
  from assms a show b: "succeeded (fst (create_database_records env u w))"
    by (simp add: install_for_user_unfold)
  from a b show "fst (snd (install_for_user env self u w)) =
           self\<lparr>active_users := insert u (active_users self)\<rparr>"
    by (simp add: install_for_user_unfold)
  from a show "snd (snd (install_for_user env self u w)) = snd (create_database_records env u w)"
    by (simp add: install_for_user_unfold)
  from a b show "fst (install_for_user env self u w) =
          [(''success'', PBool True),
           (''plugin_id'', PStr (plugin_id_of u)),
           (''plugin_slug'', PStr ''BrainDriveSettings''),
           (''plugin_name'', dsub plugin_data ''name''),
           (''modules_created'',
            PList [PStr ''ComponentTheme'', PStr ''ComponentGeneralSettings'',
                   PStr ''ComponentOllamaServer''])]"
    by (simp add: install_for_user_unfold perform_user_installation_unfold
          create_database_records_succeeded(4,5))
qed

lemma install_for_user_failed:
  "\<not> succeeded (fst (install_for_user env self u w)) \<Longrightarrow>
   fst (snd (install_for_user env self u w)) = self"
  by (simp add: install_for_user_unfold split: if_splits)


lemma succeeded_get [simp]: "truthy (dget r ''success'' PNone) = succeeded r"
  by (simp add: succeeded_def dsub_def)

lemma dsub_assign: "dsub (assign d k v) k' = (if k' = k then v else dsub d k')"
  by (induction d) (auto simp: dsub_def dget_def)

lemma dsub_dict_update2:
  "dsub (dict_update d [(k1, v1), (k2, v2)]) k =
     (if k = k2 then v2 else if k = k1 then v1 else dsub d k)"
  by (simp add: dict_update_def dsub_assign)

lemma succeeded_dict_update2 [simp]:
  "k1 \<noteq> ''success'' \<Longrightarrow> k2 \<noteq> ''success'' \<Longrightarrow>
   succeeded (dict_update d [(k1, v1), (k2, v2)]) = succeeded d"
  by (simp add: succeeded_def dsub_dict_update2)

lemma install_plugin_files_unfold:
  "install_plugin_files env self u w =
     (let m = mkdir_parents (shared_path self) (files w) in
      case fst m of
        Inl e \<Rightarrow> (failure (str_exn e), self, rollback (w\<lparr>files := snd m\<rparr>))
      | Inr x \<Rightarrow>
          (let c = copy_plugin_files_impl env u (shared_path self) False (snd m);
               i = install_for_user env self u (w\<lparr>files := snd c\<rparr>)
           in
           if \<not> succeeded (fst c) then (fst c, self, w\<lparr>files := snd c\<rparr>)
           else if succeeded (fst i) then
             (if fault_of (snd (snd i)) = None \<and>
                 filter (plugin_of u) (plugin (working (snd (snd i)))) \<noteq> []
              then
                (dict_update (fst i)
                   [(''shared_path'', PStr (path_str (shared_path self))),
                    (''files_copied'', dget (fst c) ''copied_files'' (PList []))],
                 fst (snd i), commit (pop (snd (snd i))))
              else (failure ''Installation verification failed'', fst (snd i), pop (snd (snd i))))
           else (fst i, fst (snd i), rollback (snd (snd i)))))"
  by (simp add: install_plugin_files_def check_existing_plugin_eq Let_def case_prod_beta
      split: sum.splits option.splits list.splits)

lemma install_plugin_files_failed:
  assumes "\<not> succeeded (fst (install_plugin_files env self u w))"
  shows "committed (snd (snd (install_plugin_files env self u w))) = committed w \<and>
         (fst (install_plugin_files env self u w) = failure ''Installation verification failed'' \<or>
          working (snd (snd (install_plugin_files env self u w))) = committed w \<or>
          working (snd (snd (install_plugin_files env self u w))) = working w)"
  using assms
  by (auto simp: install_plugin_files_unfold Let_def install_for_user_frame
      split: sum.splits if_splits)

lemma install_plugin_files_succeeded:
  assumes "succeeded (fst (install_plugin_files env self u w))"
  shows "u \<notin> active_users self"
    and "fst (snd (install_plugin_files env self u w)) =
           self\<lparr>active_users := insert u (active_users self)\<rparr>"
    and "plugin (working (snd (snd (install_plugin_files env self u w)))) =
           plugin (working w) @ [plugin_record env (now_strftime env) u (plugin_id_of u)]"
    and "module (working (snd (snd (install_plugin_files env self u w)))) =
           module (working w) @ map (module_record env (now_strftime env) u (plugin_id_of u)) module_data"
    and "settings_instances (working (snd (snd (install_plugin_files env self u w)))) =
           settings_instances (working w) @
           new_instances env (now_strftime env) u (uuid_calls w)
             (filter (instance_missing u (settings_instances (working w))) settings_instances_data)"
    and "committed (snd (snd (install_plugin_files env self u w))) =
           working (snd (snd (install_plugin_files env self u w)))"
    and "dsub (fst (install_plugin_files env self u w)) ''plugin_id'' = PStr (plugin_id_of u)"
    and "dsub (fst (install_plugin_files env self u w)) ''modules_created'' =
           PList [PStr ''ComponentTheme'', PStr ''ComponentGeneralSettings'',
                  PStr ''ComponentOllamaServer'']"
proof -
  let ?m = "mkdir_parents (shared_path self) (files w)"
  let ?c = "copy_plugin_files_impl env u (shared_path self) False (snd ?m)"
  let ?w0 = "w\<lparr>files := snd ?c\<rparr>"
  let ?i = "install_for_user env self u ?w0"
  let ?w1 = "snd (create_database_records env u ?w0)"
  from assms have si: "succeeded (fst ?i)"
    and res: "install_plugin_files env self u w =
               (dict_update (fst ?i)
                   [(''shared_path'', PStr (path_str (shared_path self))),
                    (''files_copied'', dget (fst ?c) ''copied_files'' (PList []))],
                fst (snd ?i), commit (pop (snd (snd ?i))))"
    by (auto simp: install_plugin_files_unfold Let_def split: sum.splits if_splits)
  note i = install_for_user_succeeded [OF si]
  note d = create_database_records_succeeded [OF i(2)]
  have w: "snd (snd (install_plugin_files env self u w)) = commit (pop ?w1)"
    by (simp only: res snd_conv i(4))
  show "u \<notin> active_users self" by (rule i(1))
  show "fst (snd (install_plugin_files env self u w)) =
           self\<lparr>active_users := insert u (active_users self)\<rparr>"
    by (simp only: res snd_conv fst_conv i(3))
  have "plugin (working (commit (pop ?w1))) = plugin (working ?w1)" by simp
  also note d(1)
  finally show "plugin (working (snd (snd (install_plugin_files env self u w)))) =
           plugin (working w) @ [plugin_record env (now_strftime env) u (plugin_id_of u)]"
    by (simp add: w)
  have "module (working (commit (pop ?w1))) = module (working ?w1)" by simp
  also note d(2)
  finally show "module (working (snd (snd (install_plugin_files env self u w)))) =
           module (working w) @ map (module_record env (now_strftime env) u (plugin_id_of u)) module_data"
    by (simp add: w)
  have "settings_instances (working (commit (pop ?w1))) = settings_instances (working ?w1)"
    by simp
  also note d(3)
  finally show "settings_instances (working (snd (snd (install_plugin_files env self u w)))) =
           settings_instances (working w) @
           new_instances env (now_strftime env) u (uuid_calls w)
             (filter (instance_missing u (settings_instances (working w))) settings_instances_data)"
    by (simp add: w)
  show "committed (snd (snd (install_plugin_files env self u w))) =
           working (snd (snd (install_plugin_files env self u w)))"
    by (simp add: w)
  show "dsub (fst (install_plugin_files env self u w)) ''plugin_id'' = PStr (plugin_id_of u)"
    by (simp add: res i(5) dsub_dict_update2)
  show "dsub (fst (install_plugin_files env self u w)) ''modules_created'' =
           PList [PStr ''ComponentTheme'', PStr ''ComponentGeneralSettings'',
                  PStr ''ComponentOllamaServer'']"
    by (simp add: res i(5) dsub_dict_update2)
qed

lemma install_plugin_unfold:
  "install_plugin env self u w =
     (if fault_of w = None \<and> filter (plugin_of u) (plugin (working w)) \<noteq> [] then
        ([(''success'', PBool False),
          (''error'', PStr ''Plugin already installed for user''),
          (''plugin_id'', col (hd (filter (plugin_of u) (plugin (working w)))) ''id'')],
         self, pop w)
      else install_plugin_files env self u (pop w))"
  by (simp add: install_plugin_def check_existing_plugin_eq split: option.splits list.splits)

lemma install_plugin_failed:
  assumes "\<not> succeeded (fst (install_plugin env self u w))"
  shows "committed (snd (snd (install_plugin env self u w))) = committed w \<and>
         (fst (install_plugin env self u w) = failure ''Installation verification failed'' \<or>
          working (snd (snd (install_plugin env self u w))) = committed w \<or>
          working (snd (snd (install_plugin env self u w))) = working w)"
proof (cases "fault_of w = None \<and> filter (plugin_of u) (plugin (working w)) \<noteq> []")
  case True
  then show ?thesis by (simp add: install_plugin_unfold)
next
  case False
  then have e: "install_plugin env self u w = install_plugin_files env self u (pop w)"
    by (auto simp: install_plugin_unfold)
  from install_plugin_files_failed [of env self u "pop w"] assms show ?thesis
    by (simp add: e)
qed

lemma install_plugin_succeeded:
  assumes "succeeded (fst (install_plugin env self u w))"
  shows "u \<notin> active_users self"
    and "fst (snd (install_plugin env self u w)) =
           self\<lparr>active_users := insert u (active_users self)\<rparr>"
    and "plugin (working (snd (snd (install_plugin env self u w)))) =
           plugin (working w) @ [plugin_record env (now_strftime env) u (plugin_id_of u)]"
    and "module (working (snd (snd (install_plugin env self u w)))) =
           module (working w) @ map (module_record env (now_strftime env) u (plugin_id_of u)) module_data"
    and "settings_instances (working (snd (snd (install_plugin env self u w)))) =
           settings_instances (working w) @
           new_instances env (now_strftime env) u (uuid_calls w)
             (filter (instance_missing u (settings_instances (working w))) settings_instances_data)"
    and "committed (snd (snd (install_plugin env self u w))) =
           working (snd (snd (install_plugin env self u w)))"
    and "dsub (fst (install_plugin env self u w)) ''plugin_id'' = PStr (plugin_id_of u)"
    and "dsub (fst (install_plugin env self u w)) ''modules_created'' =
           PList [PStr ''ComponentTheme'', PStr ''ComponentGeneralSettings'',
                  PStr ''ComponentOllamaServer'']"
    and "fault_of w \<noteq> None \<or> filter (plugin_of u) (plugin (working w)) = []"
proof -
  from assms have e: "install_plugin env self u w = install_plugin_files env self u (pop w)"
    and n: "fault_of w \<noteq> None \<or> filter (plugin_of u) (plugin (working w)) = []"
    by (auto simp: install_plugin_unfold split: if_splits)
  from assms have s: "succeeded (fst (install_plugin_files env self u (pop w)))"
    by (simp add: e)
  note f = install_plugin_files_succeeded [OF s]
  show "u \<notin> active_users self" by (rule f(1))
  show "fst (snd (install_plugin env self u w)) =
           self\<lparr>active_users := insert u (active_users self)\<rparr>"
    using f(2) by (simp add: e)
  show "plugin (working (snd (snd (install_plugin env self u w)))) =
           plugin (working w) @ [plugin_record env (now_strftime env) u (plugin_id_of u)]"
    using f(3) by (simp add: e)
  show "module (working (snd (snd (install_plugin env self u w)))) =
           module (working w) @ map (module_record env (now_strftime env) u (plugin_id_of u)) module_data"
    using f(4) by (simp add: e)
  show "settings_instances (working (snd (snd (install_plugin env self u w)))) =
           settings_instances (working w) @
           new_instances env (now_strftime env) u (uuid_calls w)
             (filter (instance_missing u (settings_instances (working w))) settings_instances_data)"
    using f(5) by (simp add: e)
  show "committed (snd (snd (install_plugin env self u w))) =
           working (snd (snd (install_plugin env self u w)))"
    using f(6) by (simp add: e)
  show "dsub (fst (install_plugin env self u w)) ''plugin_id'' = PStr (plugin_id_of u)"
    using f(7) by (simp add: e)
  show "dsub (fst (install_plugin env self u w)) ''modules_created'' =
           PList [PStr ''ComponentTheme'', PStr ''ComponentGeneralSettings'',
                  PStr ''ComponentOllamaServer'']"
    using f(8) by (simp add: e)
  show "fault_of w \<noteq> None \<or> filter (plugin_of u) (plugin (working w)) = []" by (rule n)
qed

section \<open>Update: export, deletion, installation, import\<close>

lemma export_user_data_frame:
  "working (snd (export_user_data env u w)) = working w \<and>
   committed (snd (export_user_data env u w)) = committed w \<and>
   files (snd (export_user_data env u w)) = files w \<and>
   uuid_calls (snd (export_user_data env u w)) = uuid_calls w"
  by (simp add: export_user_data_def execute_select_eq split: option.splits sum.splits)

lemma export_user_data_snd:
  "snd (export_user_data env u w) =
     (if fault_of w = None \<and>
         \<not> isl (export_plugin_part env
                  (map (\<lambda>r. map (col r) [''config_fields'', ''messages'', ''dependencies''])
                     (filter (plugin_of u) (plugin (working w)))))
      then pop (pop w) else pop w)"
  by (simp add: export_user_data_def execute_select_eq split: option.splits sum.splits)

lemma export_user_data_no_fault:
  "faults w = [] \<Longrightarrow> snd (export_user_data env u w) = w"
  by (simp add: export_user_data_def execute_select_eq split: option.splits sum.splits)

lemma update_plugin_unfold:
  "update_plugin env nm u w =
     (let e = export_user_data env u w;
          user_data = (if succeeded (fst e) then dget (fst e) ''data'' (PDict []) else PDict []);
          d = delete_plugin u (snd e);
          i = install_plugin env nm u (snd d)
      in
      if \<not> succeeded (fst d) then (fst d, nm, snd d)
      else if \<not> succeeded (fst i) then i
      else
        (fst i, fst (snd i),
         if truthy user_data then
           commit (snd (import_user_data_body env u (sdict [(''data'', user_data)]) (snd (snd i))))
         else snd (snd i)))"
  by (simp add: update_plugin_def Let_def case_prod_beta import_user_data_def)

lemma get_plugin_status_absent:
  "filter (plugin_of u) (plugin (working w)) = [] \<Longrightarrow>
   fst (get_plugin_status u w) = [(''installed'', PBool False)]"
  by (simp add: get_plugin_status_def check_existing_plugin_eq split: option.splits)

lemma single_row_deleted:
  assumes "filter (plugin_of u) ps = r # rs" and "length (filter (plugin_of u) ps) \<le> 1"
  shows "filter (plugin_of u) (filter (\<lambda>p. \<not> plugin_with_id u (col r ''id'') p) ps) = []"
proof -
  have rs: "rs = []" using assms by simp
  have "r \<in> set (filter (plugin_of u) ps)"
    by (simp add: assms(1))
  then have r: "plugin_of u r" by simp
  have "p = r" if "p \<in> set ps" "plugin_of u p" for p
  proof -
    from that have "p \<in> set (filter (plugin_of u) ps)" by simp
    then show ?thesis by (simp add: assms(1) rs)
  qed
  moreover have "plugin_with_id u (col r ''id'') r"
    using r by (simp add: plugin_with_id_def plugin_of_def)
  ultimately show ?thesis
    by (auto simp: filter_empty_conv)
qed

text \<open>
  Claim C10. \<^verbatim>\<open>update_plugin\<close> is not atomic. When the deletion inside an update has
  succeeded, it is committed; when the installation that follows fails, the update returns
  that failure and the state the failed installation left. Nothing of the deletion is taken
  back: for a user with at most one plugin row, the committed store then holds no plugin row
  of the user and no module row of the user under the deleted plugin id, and
  \<^verbatim>\<open>get_plugin_status\<close> on the committed store answers \<open>installed: False\<close>. It answers
  the same inside the session, unless the failure is "Installation verification failed",
  after which the rows of the unverified installation are still in the open transaction.
\<close>

theorem update_not_atomic:
  "let w1 = snd (export_user_data env u w);
       w2 = snd (delete_plugin u w1);
       inst = install_plugin env nm u w2;
       w3 = snd (snd inst)
   in
   succeeded (fst (delete_plugin u w1)) \<and> \<not> succeeded (fst inst) \<and>
   length (filter (plugin_of u) (plugin (working w))) \<le> 1 \<longrightarrow>
     update_plugin env nm u w = inst \<and>
     committed w2 = working w2 \<and>
     committed w3 = committed w2 \<and>
     filter (plugin_of u) (plugin (committed w3)) = [] \<and>
     (\<forall>r \<in> set (filter (plugin_of u) (plugin (working w))).
        filter (module_of_plugin u (col r ''id'')) (module (committed w3)) = []) \<and>
     fst (get_plugin_status u (rollback w3)) = [(''installed'', PBool False)] \<and>
     (fst inst \<noteq> failure ''Installation verification failed'' \<longrightarrow>
        fst (get_plugin_status u w3) = [(''installed'', PBool False)])"
proof -
  let ?w1 = "snd (export_user_data env u w)"
  let ?w2 = "snd (delete_plugin u ?w1)"
  let ?inst = "install_plugin env nm u ?w2"
  let ?w3 = "snd (snd ?inst)"
  {
    assume d: "succeeded (fst (delete_plugin u ?w1))"
      and i: "\<not> succeeded (fst ?inst)"
      and one: "length (filter (plugin_of u) (plugin (working w))) \<le> 1"
    have w1: "working ?w1 = working w"
      by (simp add: export_user_data_frame)
    from delete_plugin_succeeded [OF d] obtain r rs
      where rows: "filter (plugin_of u) (plugin (working w)) = r # rs"
        and w2: "working ?w2 = (working w)
             \<lparr>module := filter (\<lambda>m. \<not> module_of_plugin u (col r ''id'') m) (module (working w)),
              plugin := filter (\<lambda>p. \<not> plugin_with_id u (col r ''id'') p) (plugin (working w))\<rparr>"
        and c2: "committed ?w2 = working ?w2"
      by (auto simp: w1)
    have none: "filter (plugin_of u) (plugin (working ?w2)) = []"
      using single_row_deleted [OF rows one] by (simp add: w2)
    have rs: "rs = []" using rows one by simp
    have mods: "filter (module_of_plugin u (col r ''id'')) (module (working ?w2)) = []"
      by (simp add: w2 filter_empty_conv)
    note f = install_plugin_failed [OF i]
    have c3: "committed ?w3 = committed ?w2" using f by simp
    have upd: "update_plugin env nm u w = ?inst"
      using d i by (simp add: update_plugin_unfold Let_def)
    have st: "fst (get_plugin_status u (rollback ?w3)) = [(''installed'', PBool False)]"
      by (rule get_plugin_status_absent) (simp add: c3 c2 none)
    have st': "fst (get_plugin_status u ?w3) = [(''installed'', PBool False)]"
      if "fst ?inst \<noteq> failure ''Installation verification failed''"
    proof -
      from f that have "working ?w3 = working ?w2"
        by (auto simp: c2)
      then show ?thesis
        by (intro get_plugin_status_absent) (simp add: none)
    qed
    have "update_plugin env nm u w = ?inst \<and>
     committed ?w2 = working ?w2 \<and>
     committed ?w3 = committed ?w2 \<and>
     filter (plugin_of u) (plugin (committed ?w3)) = [] \<and>
     (\<forall>r \<in> set (filter (plugin_of u) (plugin (working w))).
        filter (module_of_plugin u (col r ''id'')) (module (committed ?w3)) = []) \<and>
     fst (get_plugin_status u (rollback ?w3)) = [(''installed'', PBool False)] \<and>
     (fst ?inst \<noteq> failure ''Installation verification failed'' \<longrightarrow>
        fst (get_plugin_status u ?w3) = [(''installed'', PBool False)])"
      using upd c2 c3 none mods st st' by (simp add: rows rs)
  }
  then show ?thesis
    unfolding Let_def by blast
qed

lemma active_user_not_installed:
  "u \<in> active_users self \<Longrightarrow> \<not> succeeded (fst (install_plugin env self u w))"
  using install_plugin_succeeded(1) by blast

theorem update_not_atomic_witness:
  "succeeded (fst (delete_plugin ''u1'' (snd (export_user_data demo_env ''u1'' user_world)))) \<and>
   \<not> succeeded (fst (update_plugin demo_env active_manager ''u1'' user_world)) \<and>
   length (filter (plugin_of ''u1'') (plugin (working user_world))) \<le> 1 \<and>
   filter (plugin_of ''u1'')
     (plugin (committed (snd (snd (update_plugin demo_env active_manager ''u1'' user_world))))) = [] \<and>
   fst (get_plugin_status ''u1''
          (rollback (snd (snd (update_plugin demo_env active_manager ''u1'' user_world))))) =
     [(''installed'', PBool False)]"
proof -
  let ?w1 = "snd (export_user_data demo_env ''u1'' user_world)"
  let ?w2 = "snd (delete_plugin ''u1'' ?w1)"
  have nf: "faults user_world = []" by (simp add: user_world_def)
  have w1: "?w1 = user_world" by (simp add: export_user_data_no_fault nf)
  have d: "succeeded (fst (delete_plugin ''u1'' ?w1))"
    unfolding w1 by (rule delete_plugin_no_fault) (simp_all add: user_world_rows nf)
  have i: "\<not> succeeded (fst (install_plugin demo_env active_manager ''u1'' ?w2))"
    by (rule active_user_not_installed) (simp add: active_manager_def)
  have l: "length (filter (plugin_of ''u1'') (plugin (working user_world))) \<le> 1"
    by (simp add: user_world_rows)
  note t = update_not_atomic [of demo_env "''u1''" user_world active_manager, unfolded Let_def]
  from t d i l
  have u: "update_plugin demo_env active_manager ''u1'' user_world =
           install_plugin demo_env active_manager ''u1'' ?w2"
    by blast
  from t d i l
  have e: "filter (plugin_of ''u1'')
             (plugin (committed (snd (snd (install_plugin demo_env active_manager ''u1'' ?w2))))) = []"
    by blast
  from t d i l
  have s: "fst (get_plugin_status ''u1''
                 (rollback (snd (snd (install_plugin demo_env active_manager ''u1'' ?w2))))) =
           [(''installed'', PBool False)]"
    by blast
  show ?thesis
    using d i l e s by (simp only: u) blast
qed


lemma plugin_data_fields [simp]:
  "dsub plugin_data ''name'' = PStr ''BrainDrive Settings''"
  "dsub plugin_data ''version'' = PStr ''1.0.3''"
  by (simp_all add: plugin_data_def)

lemma demo_manager_eq:
  "demo_manager =
     \<lparr>active_users = {}, shared_path = [''plugins'', ''shared'', ''BrainDriveSettings'', ''v1.0.3'']\<rparr>"
  by (simp add: demo_manager_def init_manager_def)

lemmas eval_install =
  install_plugin_def install_plugin_files_def
  install_for_user_def perform_user_installation_def create_database_records_def
  ensure_settings_definitions_def create_settings_instances_def
  PLUGIN_SETTINGS_DEFINITIONS_def settings_instances_data_def module_data_def
  execute_select_eq execute_insert_eq now_formatted_def
  check_existing_plugin_eq fault_of_def pop_def commit_def rollback_def
  plugin_of_def instance_of_def
  mkdir_parents_def copy_plugin_files_impl_def rglob_def path_exists_def
  dict_update_def demo_manager_eq

lemmas eval_export =
  export_user_data_def export_plugin_part_def export_plugin_config_def
  export_module_config_def loads_or_def json_loads_def now_iso_def
  execute_select_eq fault_of_def pop_def plugin_of_def module_of_pattern_def sql_like_def
  plugin_id_of_eq sdict_def

lemmas eval_store =
  user_world_def user_db_def stored_plugin_def stored_modules_def stored_module_def
  stored_definitions_def stored_instances_def stored_instance_def host_env_def demo_env_def
  known_json_def no_messages_def

section \<open>Installing\<close>

lemma new_instances_cols:
  "\<forall>d \<in> set ds. dsub d ''scope'' = PStr ''user'' \<Longrightarrow>
   \<forall>i \<in> set (new_instances env t u n ds).
     col i ''user_id'' = PStr u \<and> col i ''scope'' = PStr ''user''"
  by (induction ds arbitrary: n) simp_all

lemma new_instances_definition_ids:
  "map (\<lambda>i. col i ''definition_id'') (new_instances env t u n ds) =
   map (\<lambda>d. dsub d ''definition_id'') ds"
  by (induction ds arbitrary: n) simp_all

lemma settings_instances_data_scope:
  "\<forall>d \<in> set (filter P settings_instances_data). dsub d ''scope'' = PStr ''user''"
  by (simp add: settings_instances_data_def)

lemma plugin_of_record [simp]: "plugin_of u (plugin_record env t u pid)"
  by (simp add: plugin_of_def)

lemma module_record_ids:
  "map (\<lambda>m. col m ''id'') (map (module_record env t u pid) module_data) =
     [PStr (u @ ''_ComponentTheme''), PStr (u @ ''_ComponentGeneralSettings''),
      PStr (u @ ''_ComponentOllamaServer'')]"
  by (simp add: module_data_def)

lemma all_missing:
  assumes "\<forall>d \<in> set settings_instances_data. filter (instance_of u d) tbl = []"
  shows "filter (instance_missing u tbl) settings_instances_data = settings_instances_data"
  using assms by (simp add: instance_missing_def)

section \<open>Validation of an installed directory\<close>

lemma join_path_bundle [simp]: "join_path d ''dist/remoteEntry.js'' = d @ [''dist'', ''remoteEntry.js'']"
  by (simp add: join_path_def)

lemma join_path_manifest [simp]: "join_path d ''package.json'' = d @ [''package.json'']"
  by (simp add: join_path_def)

lemma validate_missing:
  "validate_installation_impl env u d fs =
     (if \<not> path_exists fs (d @ [''package.json'']) then
        if \<not> path_exists fs (d @ [''dist'', ''remoteEntry.js'']) then
          invalid ''BrainDriveSettings: Missing required files: package.json, dist/remoteEntry.js''
        else invalid ''BrainDriveSettings: Missing required files: package.json''
      else if \<not> path_exists fs (d @ [''dist'', ''remoteEntry.js'']) then
        invalid ''BrainDriveSettings: Missing required files: dist/remoteEntry.js''
      else
        (case manifest_fields env fs (d @ [''package.json'']) of
           Inl e \<Rightarrow>
             invalid (if exn_class_of e = JSONDecodeError \<or> exn_class_of e = FileNotFoundError
                      then ''BrainDriveSettings: Invalid or missing package.json: '' @ str_exn e
                      else str_exn e)
         | Inr (Some field) \<Rightarrow>
             invalid (''BrainDriveSettings: package.json missing required field: '' @ field)
         | Inr None \<Rightarrow>
             if st_size fs (d @ [''dist'', ''remoteEntry.js'']) = Inr 0 then
               invalid ''BrainDriveSettings: Bundle file (remoteEntry.js) is empty''
             else [(''valid'', PBool True)]))"
  by (auto simp: validate_installation_impl_def required_files_def path_exists_def st_size_def
      split: sum.splits option.splits node.splits)

lemma missing_field_required:
  "missing_field required_fields v =
     (case py_in ''name'' v of
        Inl e \<Rightarrow> Inl e
      | Inr has_name \<Rightarrow>
          if \<not> has_name then Inr (Some ''name'')
          else (case py_in ''version'' v of
                  Inl e \<Rightarrow> Inl e
                | Inr has_version \<Rightarrow> if \<not> has_version then Inr (Some ''version'') else Inr None))"
  by (simp add: required_fields_def split: sum.splits)


lemma manifest_exists [simp]:
  "path_exists (files_with_manifest n) (plugin_dir @ [''package.json''])"
  "path_exists (files_with_manifest n) (plugin_dir @ [''dist'', ''remoteEntry.js''])"
  "st_size (files_with_manifest n) (plugin_dir @ [''dist'', ''remoteEntry.js'']) = Inr 6"
  "open_read (files_with_manifest (File r c)) (plugin_dir @ [''package.json'']) =
     (if r then Inr c else Inl (permission_denied (plugin_dir @ [''package.json''])))"
  by (simp_all add: files_with_manifest_def plugin_dir_def path_exists_def st_size_def
        open_read_def)

lemma demo_loads [simp]:
  \<open>loads demo_env manifest_text =
     Inr (sdict [(''name'', PStr ''settings''), (''version'', PStr ''1.0.3'')])\<close>
  \<open>loads demo_env ''["name", "version"]'' = Inr (PList [PStr ''name'', PStr ''version''])\<close>
  \<open>loads demo_env ''{"name": "settings"}'' = Inr (sdict [(''name'', PStr ''settings'')])\<close>
  \<open>loads demo_env ''5'' = Inr (PInt 5)\<close>
  \<open>loads demo_env ''not json'' =
     Inl (Exn JSONDecodeError ''Expecting value: line 1 column 1 (char 0)'')\<close>
  by (simp_all add: demo_env_def known_json_def manifest_text_def no_messages_def sdict_def)

lemma demo_decode [simp]:
  "decode demo_env manifest_text = Inr manifest_text"
  \<open>decode demo_env ''["name", "version"]'' = Inr ''["name", "version"]''\<close>
  \<open>decode demo_env ''{"name": "settings"}'' = Inr ''{"name": "settings"}''\<close>
  "decode demo_env ''5'' = Inr ''5''"
  "decode demo_env ''not json'' = Inr ''not json''"
  "decode demo_env (CHR 0xFF # s) =
     Inl (Exn UnicodeDecodeError
            (quoted ''utf-8'' @ '' codec can't decode byte 0xff in position 0: invalid start byte''))"
  by (simp_all add: demo_env_def manifest_text_def)



section \<open>Health of an installed directory\<close>

lemma health_bundle_eq:
  "health_bundle fs d =
     Inr [(''bundle_exists'', PBool (path_exists fs (d @ [''dist'', ''remoteEntry.js'']))),
          (''bundle_size'',
           PInt (case st_size fs (d @ [''dist'', ''remoteEntry.js'']) of
                   Inr n \<Rightarrow> int n | Inl e \<Rightarrow> 0))]"
  by (simp add: health_bundle_def path_exists_def st_size_def split: option.splits node.splits)

lemma health_package_json_eq:
  "health_package_json env fs d =
     (if path_exists fs (d @ [''package.json'']) \<and> isl (json_load env fs (d @ [''package.json''])) \<and>
         exn_class_of (projl (json_load env fs (d @ [''package.json'']))) \<noteq> JSONDecodeError
      then Inl (projl (json_load env fs (d @ [''package.json''])))
      else Inr (path_exists fs (d @ [''package.json'']) \<and>
                \<not> isl (json_load env fs (d @ [''package.json'']))))"
  by (simp add: health_package_json_def Let_def split: sum.splits)

lemma health_assets_eq:
  "health_assets fs d =
     (if path_exists fs (d @ [''src'']) \<and> \<not> is_dir fs (d @ [''src''])
      then Inl (not_a_directory (d @ [''src'']))
      else Inr (is_dir fs (d @ [''src'']) \<and>
                filter (\<lambda>q. q \<noteq> [] \<and> butlast q = d @ [''src'']) (map fst fs) \<noteq> []))"
  by (simp add: health_assets_def path_exists_def iterdir_def is_dir_def
      split: option.splits node.splits)

lemma health_inspection_eq:
  "health_inspection env d fs =
     (if path_exists fs (d @ [''package.json'']) \<and> isl (json_load env fs (d @ [''package.json''])) \<and>
         exn_class_of (projl (json_load env fs (d @ [''package.json'']))) \<noteq> JSONDecodeError
      then Inl (projl (json_load env fs (d @ [''package.json''])))
      else if path_exists fs (d @ [''src'']) \<and> \<not> is_dir fs (d @ [''src'']) then
        Inl (not_a_directory (d @ [''src'']))
      else
        Inr [(''bundle_exists'', PBool (path_exists fs (d @ [''dist'', ''remoteEntry.js'']))),
             (''bundle_size'',
              PInt (case st_size fs (d @ [''dist'', ''remoteEntry.js'']) of
                      Inr n \<Rightarrow> int n | Inl e \<Rightarrow> 0)),
             (''package_json_valid'',
              PBool (path_exists fs (d @ [''package.json'']) \<and>
                     \<not> isl (json_load env fs (d @ [''package.json''])))),
             (''assets_present'',
              PBool (is_dir fs (d @ [''src'']) \<and>
                     filter (\<lambda>q. q \<noteq> [] \<and> butlast q = d @ [''src'']) (map fst fs) \<noteq> []))])"
  by (simp add: health_inspection_def health_bundle_eq health_package_json_eq health_assets_eq
      del: filter.simps)



section \<open>The rows of a successful installation\<close>

lemma create_database_records_class:
  "datetime_is_class env \<Longrightarrow> \<not> succeeded (fst (create_database_records env u w))"
  by (simp add: create_database_records_unfold create_settings_instances_class)

lemma install_for_user_class:
  "datetime_is_class env \<Longrightarrow> \<not> succeeded (fst (install_for_user env self u w))"
  by (simp add: install_for_user_unfold create_database_records_class)

lemma install_plugin_files_class:
  "datetime_is_class env \<Longrightarrow> \<not> succeeded (fst (install_plugin_files env self u w))"
  by (auto simp: install_plugin_files_unfold Let_def install_for_user_class split: sum.splits)

lemma install_plugin_class:
  "datetime_is_class env \<Longrightarrow> \<not> succeeded (fst (install_plugin env self u w))"
  by (simp add: install_plugin_unfold install_plugin_files_class)

lemma instance_of_append:
  "dsub d' ''definition_id'' \<noteq> dsub d ''definition_id'' \<Longrightarrow>
   filter (instance_of u d') (tbl @ [instance_record t u i d]) = filter (instance_of u d') tbl"
  by (simp add: instance_of_def)

lemma instances_loop_head:
  assumes "create_settings_instances_loop env t u (d # ds) acc w = (Inr created, w')"
  shows "length (filter (instance_of u d) (settings_instances (working w))) \<le> 1"
  using assms
  by (cases "filter (instance_of u d) (settings_instances (working w))";
      cases "tl (filter (instance_of u d) (settings_instances (working w)))")
     (auto simp: execute_select_eq split: option.splits)

lemma instances_loop_unique:
  assumes "create_settings_instances_loop env t u ds acc w = (Inr created, w')"
    and "distinct (map (\<lambda>d. dsub d ''definition_id'') ds)"
  shows "\<forall>d \<in> set ds. length (filter (instance_of u d) (settings_instances (working w))) \<le> 1"
  using assms
proof (induction ds arbitrary: acc w)
  case Nil
  then show ?case by simp
next
  case (Cons d ds)
  let ?tbl = "settings_instances (working w)"
  let ?row = "instance_record t u (filter (\<lambda>c. c \<noteq> CHR ''-'') (uuid4 env (uuid_calls w))) d"
  have dist: "distinct (map (\<lambda>d. dsub d ''definition_id'') ds)"
    using Cons.prems(2) by simp
  have other: "dsub d' ''definition_id'' \<noteq> dsub d ''definition_id''" if "d' \<in> set ds" for d'
    using Cons.prems(2) that by (auto simp: image_iff)
  have hd: "length (filter (instance_of u d) ?tbl) \<le> 1"
    by (rule instances_loop_head [OF Cons.prems(1)])
  have tl: "\<forall>d' \<in> set ds. length (filter (instance_of u d') ?tbl) \<le> 1"
  proof (cases "instance_missing u ?tbl d")
    case True
    with instances_loop_step [OF Cons.prems(1)]
    have run: "create_settings_instances_loop env t u ds (acc @ [dsub d ''name''])
             (pop (pop w)
                \<lparr>uuid_calls := Suc (uuid_calls w),
                 working := (working w)\<lparr>settings_instances := ?tbl @ [?row]\<rparr>\<rparr>) =
             (Inr created, w')"
      by simp
    from Cons.IH [OF run dist]
    have ih: "\<forall>d' \<in> set ds. length (filter (instance_of u d') (?tbl @ [?row])) \<le> 1"
      by simp
    show ?thesis
    proof
      fix d' assume d': "d' \<in> set ds"
      from ih d' have "length (filter (instance_of u d') (?tbl @ [?row])) \<le> 1"
        by blast
      then show "length (filter (instance_of u d') ?tbl) \<le> 1"
        by (simp only: instance_of_append [OF other [OF d']])
    qed
  next
    case False
    with instances_loop_step [OF Cons.prems(1)]
    have run: "create_settings_instances_loop env t u ds acc (pop w) = (Inr created, w')"
      by simp
    from Cons.IH [OF run dist] show ?thesis
      by simp
  qed
  show ?case
    using hd tl by simp
qed

lemma create_settings_instances_unique:
  assumes "succeeded (fst (create_settings_instances env u w))"
  shows "\<forall>d \<in> set settings_instances_data.
           length (filter (instance_of u d) (settings_instances (working w))) \<le> 1"
proof -
  obtain created w' where
    "create_settings_instances_loop env (now_strftime env) u settings_instances_data [] w =
      (Inr created, w')"
    using assms
    by (auto simp: create_settings_instances_def now_formatted_def
        split: prod.splits sum.splits if_splits)
  from instances_loop_unique [OF this settings_instances_data_distinct] show ?thesis .
qed

lemma create_database_records_unique:
  assumes "succeeded (fst (create_database_records env u w))"
  shows "\<forall>d \<in> set settings_instances_data.
           length (filter (instance_of u d) (settings_instances (working w))) \<le> 1"
proof -
  from assms
  have "succeeded (fst (create_settings_instances env u
                          (snd (ensure_settings_definitions env (pop w)))))"
    by (auto simp: create_database_records_unfold Let_def split: if_splits)
  from create_settings_instances_unique [OF this] show ?thesis
    by (simp add: ensure_frame)
qed

lemma install_plugin_succeeded_records:
  assumes "succeeded (fst (install_plugin env self u w))"
  shows "\<exists>fs. succeeded (fst (create_database_records env u ((pop w)\<lparr>files := fs\<rparr>)))"
proof -
  from assms have s: "succeeded (fst (install_plugin_files env self u (pop w)))"
    by (auto simp: install_plugin_unfold split: if_splits)
  let ?m = "mkdir_parents (shared_path self) (files (pop w))"
  let ?c = "copy_plugin_files_impl env u (shared_path self) False (snd ?m)"
  from s have "succeeded (fst (install_for_user env self u ((pop w)\<lparr>files := snd ?c\<rparr>)))"
    by (auto simp: install_plugin_files_unfold Let_def split: sum.splits if_splits)
  from install_for_user_succeeded(2) [OF this] show ?thesis by blast
qed

lemma install_plugin_unique:
  assumes "succeeded (fst (install_plugin env self u w))"
  shows "\<forall>d \<in> set settings_instances_data.
           length (filter (instance_of u d) (settings_instances (working w))) \<le> 1"
proof -
  from install_plugin_succeeded_records [OF assms] obtain fs
    where "succeeded (fst (create_database_records env u ((pop w)\<lparr>files := fs\<rparr>)))" ..
  from create_database_records_unique [OF this] show ?thesis by simp
qed

lemma instance_missing_iff:
  "length (filter (instance_of u d) tbl) \<le> 1 \<Longrightarrow>
   instance_missing u tbl d \<longleftrightarrow> (\<forall>r \<in> set (filter (instance_of u d) tbl). \<not> truthy (col r ''id''))"
  by (cases "filter (instance_of u d) tbl"; cases "tl (filter (instance_of u d) tbl)")
     (simp_all add: instance_missing_def)


lemma fresh_install_succeeds:
  "succeeded (fst (install_plugin host_env demo_manager ''u1'' fresh_world))"
  by (simp add: eval_install fresh_world_def empty_db_def host_env_def demo_env_def)

lemma fresh_install_fails:
  "fst (install_plugin demo_env demo_manager ''u1'' fresh_world) =
     failure (''type object '' @ quoted ''datetime.datetime'' @ '' has no attribute '' @
              quoted ''datetime'')"
  by (simp add: eval_install fresh_world_def empty_db_def demo_env_def
        datetime_attribute_error_def)


lemma returning_install_succeeds:
  "succeeded (fst (install_plugin host_env demo_manager ''u1'' returning_world))"
  by (simp add: eval_install returning_world_def returning_db_def stored_definitions_def
        stored_instance_def host_env_def demo_env_def)

lemma returning_missing:
  "filter (instance_missing ''u1''
             [stored_instance ''u1'' ''i1'' ''theme_settings'',
              stored_instance ''u1'' ''i7'' ''editor_settings''])
     settings_instances_data =
   [ollama_servers_settings_instance, general_settings_instance]"
  by (simp add: stored_instance_def settings_instances_data_def instance_missing_def
        instance_of_def)


section \<open>An import that fails inside an update\<close>

lemma import_body_fault:
  assumes "fault_of w = Some msg"
    and "py_get user_data ''plugin_config'' (PDict []) = Inr (PDict (x # xs))"
    and "py_get user_data ''modules_config'' (PDict []) = Inr m"
  shows "import_user_data_body env u (sdict [(''data'', user_data)]) w =
           (Inl (Exn DatabaseError msg), pop w)"
  using assms
  by (simp add: import_user_data_body_def import_plugin_config_def execute_update_eq sdict_def)

lemma py_get_truthy:
  "py_get v k (PDict []) = Inr (PDict (x # xs)) \<Longrightarrow> truthy v"
  by (cases v) auto


lemma installed_props:
  "map (\<lambda>m. col m ''props'') (map (module_record host_env t u pid) module_data) =
     [PStr ''{}'', PStr ''{}'', PStr ''{}'']"
  by (simp add: module_data_def theme_module_def general_settings_module_def
        ollama_server_module_def json_dumps_def host_env_def demo_env_def known_json_def)


end
